theory Spec2Isabelle
  imports Complex_Main "HOL-Library.Word" "HOL-Library.AList"
begin

section \<open>JavaScript values\<close>

text \<open>
  The server of \<^verbatim>\<open>node-backend-server/index.js\<close> handles the query object of a request,
  talks to a discovery service and to a key-value store, and answers with a status code
  and a body. The values it handles are JavaScript data: a string is a sequence of 16-bit
  code units, a number is a double (here: not-a-number, the two infinities, or a finite
  value, with negative zero identified with zero, which \<^verbatim>\<open>!\<close>, \<^verbatim>\<open>!==\<close> and the store's key
  encoding do not tell apart), an array is a list and an object is a list of own
  properties (the first entry of a name is the property).
\<close>

type_synonym jsstring = "16 word list"

datatype jsnum = NaN | PosInfinity | NegInfinity | Fin rat

datatype jsval =
    JUndefined
  | JNull
  | JBool bool
  | JNum jsnum
  | JStr jsstring
  | JArr "jsval list"
  | JObj "(jsstring \<times> jsval) list"

text \<open>A thrown value: each carries the \<^verbatim>\<open>message\<close> the catch blocks read.\<close>

datatype exn = URIError | TypeError jsstring | ServiceError jsstring

definition ascii :: "string \<Rightarrow> jsstring" where
  "ascii s = map of_char s"

text \<open>The message of a \<^verbatim>\<open>URIError\<close> raised by the decoder is the one of V8.\<close>

fun message :: "exn \<Rightarrow> jsstring" where
  "message URIError = ascii ''URI malformed''"
| "message (TypeError m) = m"
| "message (ServiceError m) = m"

text \<open>
  The conversions between strings and doubles (\<^verbatim>\<open>StringToNumber\<close>, \<^verbatim>\<open>Number::toString\<close>)
  round to and print IEEE doubles; they are parameters of the model, and every theorem
  holds for each choice of them.
\<close>

record runtime =
  StringToNumber :: "jsstring \<Rightarrow> jsnum"
  NumberToString :: "jsnum \<Rightarrow> jsstring"

text \<open>\<^verbatim>\<open>!v\<close> is \<open>\<not> truthy v\<close>.\<close>

fun truthy :: "jsval \<Rightarrow> bool" where
  "truthy JUndefined = False"
| "truthy JNull = False"
| "truthy (JBool b) = b"
| "truthy (JNum n) = (n \<noteq> NaN \<and> n \<noteq> Fin 0)"
| "truthy (JStr s) = (s \<noteq> [])"
| "truthy (JArr xs) = True"
| "truthy (JObj ps) = True"

fun typeof :: "jsval \<Rightarrow> jsstring" where
  "typeof JUndefined = ascii ''undefined''"
| "typeof JNull = ascii ''object''"
| "typeof (JBool b) = ascii ''boolean''"
| "typeof (JNum n) = ascii ''number''"
| "typeof (JStr s) = ascii ''string''"
| "typeof (JArr xs) = ascii ''object''"
| "typeof (JObj ps) = ascii ''object''"

text \<open>
  \<^verbatim>\<open>v.name\<close> for a value that is neither \<^verbatim>\<open>undefined\<close> nor \<^verbatim>\<open>null\<close>, and a name that no
  built-in prototype defines (the program reads \<^verbatim>\<open>action\<close>, \<^verbatim>\<open>id\<close>, \<^verbatim>\<open>courseName\<close>,
  \<^verbatim>\<open>courseCoverArt\<close>, \<^verbatim>\<open>courseUrl\<close>, \<^verbatim>\<open>courseAuthor\<close>, \<^verbatim>\<open>ID\<close>): an own property or
  \<^verbatim>\<open>undefined\<close>.
\<close>

fun property :: "jsval \<Rightarrow> jsstring \<Rightarrow> jsval" where
  "property (JObj ps) name = (case map_of ps name of None \<Rightarrow> JUndefined | Some v \<Rightarrow> v)"
| "property v name = JUndefined"

definition nullish :: "jsval \<Rightarrow> bool" where
  "nullish v = (v = JUndefined \<or> v = JNull)"

text \<open>
  \<^verbatim>\<open>ToString\<close>, as a template literal and \<^verbatim>\<open>decodeURIComponent\<close> apply it. An array is
  joined with commas, \<^verbatim>\<open>undefined\<close> and \<^verbatim>\<open>null\<close> elements giving the empty string. An
  object becomes \<^verbatim>\<open>[object Object]\<close>, unless it has an own property \<^verbatim>\<open>toString\<close>: that
  one is data, not a function, so the conversion to a primitive finds nothing to call and
  throws a \<^verbatim>\<open>TypeError\<close>.
\<close>

fun ToString :: "runtime \<Rightarrow> jsval \<Rightarrow> exn + jsstring"
  and join :: "runtime \<Rightarrow> jsval list \<Rightarrow> exn + jsstring" where
  "ToString rt JUndefined = Inr (ascii ''undefined'')"
| "ToString rt JNull = Inr (ascii ''null'')"
| "ToString rt (JBool b) = Inr (if b then ascii ''true'' else ascii ''false'')"
| "ToString rt (JNum n) = Inr (NumberToString rt n)"
| "ToString rt (JStr s) = Inr s"
| "ToString rt (JArr xs) = join rt xs"
| "ToString rt (JObj ps) =
     (if map_of ps (ascii ''toString'') \<noteq> None
      then Inl (TypeError (ascii ''Cannot convert object to primitive value''))
      else Inr (ascii ''[object Object]''))"
| "join rt [] = Inr []"
| "join rt (x # xs) =
     (case (if nullish x then Inr [] else ToString rt x) of
        Inl e \<Rightarrow> Inl e
      | Inr s \<Rightarrow>
          (if xs = [] then Inr s
           else (case join rt xs of
                   Inl e \<Rightarrow> Inl e
                 | Inr r \<Rightarrow> Inr (s @ ascii '','' @ r))))"

text \<open>\<^verbatim>\<open>Number(v)\<close>.\<close>

fun ToNumber :: "runtime \<Rightarrow> jsval \<Rightarrow> exn + jsnum" where
  "ToNumber rt JUndefined = Inr NaN"
| "ToNumber rt JNull = Inr (Fin 0)"
| "ToNumber rt (JBool b) = Inr (Fin (if b then 1 else 0))"
| "ToNumber rt (JNum n) = Inr n"
| "ToNumber rt (JStr s) = Inr (StringToNumber rt s)"
| "ToNumber rt v =
     (case ToString rt v of Inl e \<Rightarrow> Inl e | Inr s \<Rightarrow> Inr (StringToNumber rt s))"

section \<open>decodeURIComponent\<close>

text \<open>
  The decoder of ECMAScript (\<^verbatim>\<open>Decode\<close> with an empty set of preserved escapes): the loop
  over the index \<open>k\<close> with the result \<open>R\<close>. An escape \<^verbatim>\<open>%XX\<close> below \<^verbatim>\<open>0x80\<close> is one code
  unit; a leading octet announces \<open>n\<close> octets, each an escape of its own, that must be
  the UTF-8 encoding of a code point; everything else throws a \<^verbatim>\<open>URIError\<close>.
\<close>

definition hexDigit :: "16 word \<Rightarrow> nat option" where
  "hexDigit c =
     (let u = unat c in
      if 48 \<le> u \<and> u \<le> 57 then Some (u - 48)
      else if 65 \<le> u \<and> u \<le> 70 then Some (u - 55)
      else if 97 \<le> u \<and> u \<le> 102 then Some (u - 87)
      else None)"

text \<open>The two code units at \<open>position\<close> and \<open>position + 1\<close>, read inside the string.\<close>

definition ParseHexOctet :: "jsstring \<Rightarrow> nat \<Rightarrow> nat option" where
  "ParseHexOctet string position =
     (if position + 2 > length string then None
      else (case hexDigit (string ! position) of
              None \<Rightarrow> None
            | Some hi \<Rightarrow>
                (case hexDigit (string ! (position + 1)) of
                   None \<Rightarrow> None
                 | Some lo \<Rightarrow> Some (16 * hi + lo))))"

text \<open>The number of leading 1 bits of an octet.\<close>

definition leadingOnes :: "nat \<Rightarrow> nat" where
  "leadingOnes B =
     (if B < 128 then 0 else if B < 192 then 1 else if B < 224 then 2
      else if B < 240 then 3 else if B < 248 then 4 else 5)"

text \<open>The \<open>m\<close> escapes that follow the leading one, the first at index \<open>k\<close>.\<close>

fun continuationOctets :: "jsstring \<Rightarrow> nat \<Rightarrow> nat \<Rightarrow> nat list option" where
  "continuationOctets string k 0 = Some []"
| "continuationOctets string k (Suc m) =
     (if k + 3 > length string then None
      else if string ! k \<noteq> 37 then None
      else (case ParseHexOctet string (k + 1) of
              None \<Rightarrow> None
            | Some B \<Rightarrow>
                (case continuationOctets string (k + 3) m of
                   None \<Rightarrow> None
                 | Some Bs \<Rightarrow> Some (B # Bs))))"

text \<open>
  The code point of a well-formed UTF-8 sequence of two to four octets: continuation
  octets in \<^verbatim>\<open>80..BF\<close>, no overlong form, no surrogate, nothing above \<^verbatim>\<open>10FFFF\<close>.
\<close>

definition utf8CodePoint :: "nat list \<Rightarrow> nat option" where
  "utf8CodePoint Octets =
     (case Octets of
        [] \<Rightarrow> None
      | B # Bs \<Rightarrow>
          (let n = length Octets;
               V = foldl (\<lambda>acc b. 64 * acc + (b - 128)) (B mod 2 ^ (7 - n)) Bs
           in if list_all (\<lambda>b. 128 \<le> b \<and> b < 192) Bs
                 \<and> (if n = 2 then 128 \<le> V
                     else if n = 3 then 2048 \<le> V \<and> \<not> (55296 \<le> V \<and> V \<le> 57343)
                     else n = 4 \<and> 65536 \<le> V \<and> V \<le> 1114111)
              then Some V else None))"

definition UTF16EncodeCodePoint :: "nat \<Rightarrow> jsstring" where
  "UTF16EncodeCodePoint V =
     (if V \<le> 65535 then [of_nat V]
      else [of_nat ((V - 65536) div 1024 + 55296), of_nat ((V - 65536) mod 1024 + 56320)])"

function Decode :: "jsstring \<Rightarrow> nat \<Rightarrow> jsstring \<Rightarrow> exn + jsstring" where
  "Decode string k R =
     (if k < length string then
        (if string ! k \<noteq> 37 then Decode string (k + 1) (R @ [string ! k])
         else if k + 3 > length string then Inl URIError
         else (case ParseHexOctet string (k + 1) of
                 None \<Rightarrow> Inl URIError
               | Some B \<Rightarrow>
                   (if leadingOnes B = 0 then Decode string (k + 3) (R @ [of_nat B])
                    else if leadingOnes B = 1 \<or> leadingOnes B > 4 then Inl URIError
                    else (case continuationOctets string (k + 3) (leadingOnes B - 1) of
                            None \<Rightarrow> Inl URIError
                          | Some Bs \<Rightarrow>
                              (case utf8CodePoint (B # Bs) of
                                 None \<Rightarrow> Inl URIError
                               | Some V \<Rightarrow>
                                   Decode string (k + 3 * leadingOnes B)
                                     (R @ UTF16EncodeCodePoint V))))))
      else Inr R)"
  by pat_completeness auto
termination
  by (relation "measure (\<lambda>(string, k, R). length string - k)") auto

definition decodeURIComponent :: "runtime \<Rightarrow> jsval \<Rightarrow> exn + jsstring" where
  "decodeURIComponent rt v =
     (case ToString rt v of Inl e \<Rightarrow> Inl e | Inr s \<Rightarrow> Decode s 0 [])"

section \<open>The discovery service and the store\<close>

text \<open>
  The two services the program calls are not part of it; the model fixes what a call
  answers. A \<^verbatim>\<open>DiscoverInstances\<close> call throws or answers with an optional list of
  instances, each with an optional map of string attributes.
\<close>

record instanceSummary =
  Attributes :: "(jsstring \<times> jsstring) list option"

record discoverOutput =
  Instances :: "instanceSummary list option"

text \<open>
  The store is the opaque key-value store of the specification: tables of items under
  numeric keys, point operations by key and a scan that returns the complete set in one
  call. An item is its attributes, the key attribute \<^verbatim>\<open>ID\<close> among them.
\<close>

type_synonym item = "(jsstring \<times> jsval) list"

type_synonym table = "(rat \<times> item) list"

text \<open>
  The commands the program builds: \<^verbatim>\<open>TableName\<close> first, then \<^verbatim>\<open>Item\<close> for a put, the
  \<^verbatim>\<open>ID\<close> of \<^verbatim>\<open>Key\<close> for the others, and \<^verbatim>\<open>ExpressionAttributeValues\<close> for an update. The
  update expression, the returned values (\<^verbatim>\<open>ALL_NEW\<close>) and the projection of the scan
  (\<^verbatim>\<open>ID\<close>) are the same in every command and are part of what the store does with it.
\<close>

datatype command =
    PutCommand jsval item
  | UpdateCommand jsval jsnum item
  | GetCommand jsval jsnum
  | ScanCommand jsval
  | DeleteCommand jsval jsnum

datatype reply =
    PutOutput
  | UpdateOutput item
  | GetOutput "item option"
  | ScanOutput "item list"
  | DeleteOutput

text \<open>
  The world around one request: what the discovery service answers, how often it was
  asked, the tables of the store, the calls of the store client so far, and for each
  call (by its position in that sequence) whether the service fails it, and with which
  message.
\<close>

record world =
  discovery :: "exn + discoverOutput"
  lookups :: nat
  tables :: "jsval \<Rightarrow> table option"
  faults :: "nat \<Rightarrow> jsstring option"
  sent :: "command list"

definition TableName :: "command \<Rightarrow> jsval" where
  "TableName c =
     (case c of PutCommand t i \<Rightarrow> t | UpdateCommand t n v \<Rightarrow> t | GetCommand t n \<Rightarrow> t
      | ScanCommand t \<Rightarrow> t | DeleteCommand t n \<Rightarrow> t)"

text \<open>
  The key of a command. The document client refuses a key that is not a finite number
  before anything is sent; a scan has no key (\<open>None\<close>).
\<close>

definition specialNumeric :: "jsnum \<Rightarrow> exn" where
  "specialNumeric n =
     ServiceError (ascii ''Special numeric value '' @
       (case n of NaN \<Rightarrow> ascii ''NaN'' | PosInfinity \<Rightarrow> ascii ''Infinity''
        | NegInfinity \<Rightarrow> ascii ''-Infinity'' | Fin q \<Rightarrow> []) @ ascii '' is not allowed'')"

definition numericKey :: "jsnum \<Rightarrow> exn + rat option" where
  "numericKey n = (case n of Fin k \<Rightarrow> Inr (Some k) | _ \<Rightarrow> Inl (specialNumeric n))"

definition commandKey :: "command \<Rightarrow> exn + rat option" where
  "commandKey c =
     (case c of
        PutCommand t i \<Rightarrow>
          (case property (JObj i) (ascii ''ID'') of
             JNum n \<Rightarrow> numericKey n
           | _ \<Rightarrow> Inl (ServiceError (ascii
               ''One or more parameter values were invalid: Missing the key ID in the item'')))
      | UpdateCommand t n v \<Rightarrow> numericKey n
      | GetCommand t n \<Rightarrow> numericKey n
      | ScanCommand t \<Rightarrow> Inr None
      | DeleteCommand t n \<Rightarrow> numericKey n)"

text \<open>
  \<^verbatim>\<open>SET CourseName = :name, CourseUrl = :url, CoverArt = :coverart, Author = :author\<close>
  on an item: the four attributes get the values of the command, every other attribute
  stays.
\<close>

definition setAttributes :: "item \<Rightarrow> item \<Rightarrow> item" where
  "setAttributes values i =
     AList.update (ascii ''Author'') (property (JObj values) (ascii '':author''))
       (AList.update (ascii ''CoverArt'') (property (JObj values) (ascii '':coverart''))
         (AList.update (ascii ''CourseUrl'') (property (JObj values) (ascii '':url''))
           (AList.update (ascii ''CourseName'') (property (JObj values) (ascii '':name'')) i)))"

text \<open>
  Modelled from the spec: the store behind the document client is a service, not code of
  the program. What a command does to a table, given its key, is what the specification
  says of the five operations. A put replaces the item of the key, an update changes the
  item of the key (or creates one that has the key and the four attributes) and answers
  with the new item, a get answers with the item if there is one, a delete removes it, a
  scan answers with the key attribute of every item, all of them in one call. The last
  case is the scan, the only command without a key.
\<close>

definition execute :: "command \<Rightarrow> rat option \<Rightarrow> table \<Rightarrow> reply \<times> table" where
  "execute c key tb =
     (case (c, key) of
        (PutCommand t i, Some k) \<Rightarrow> (PutOutput, AList.update k i tb)
      | (UpdateCommand t n v, Some k) \<Rightarrow>
          (let new = setAttributes v
                 (case map_of tb k of None \<Rightarrow> [(ascii ''ID'', JNum (Fin k))] | Some old \<Rightarrow> old)
           in (UpdateOutput new, AList.update k new tb))
      | (GetCommand t n, Some k) \<Rightarrow> (GetOutput (map_of tb k), tb)
      | (DeleteCommand t n, Some k) \<Rightarrow> (DeleteOutput, AList.delete k tb)
      | _ \<Rightarrow> (ScanOutput (map (\<lambda>(k, i). [(ascii ''ID'', JNum (Fin k))]) tb), tb))"

text \<open>
  \<^verbatim>\<open>await documentClient.send(command)\<close>: the call is recorded; it throws when the key
  is refused, when the service fails the call, or when there is no table of that name,
  and otherwise does what the command says.
\<close>

definition send :: "command \<Rightarrow> world \<Rightarrow> (exn + reply) \<times> world" where
  "send c w =
     (let w1 = w\<lparr>sent := sent w @ [c]\<rparr> in
      case commandKey c of
        Inl e \<Rightarrow> (Inl e, w1)
      | Inr key \<Rightarrow>
          (case faults w (length (sent w)) of
             Some m \<Rightarrow> (Inl (ServiceError m), w1)
           | None \<Rightarrow>
               (case tables w (TableName c) of
                  None \<Rightarrow> (Inl (ServiceError (ascii ''Requested resource not found'')), w1)
                | Some tb \<Rightarrow>
                    (case execute c key tb of
                       (out, tb') \<Rightarrow>
                         (Inr out, w1\<lparr>tables := (tables w)(TableName c := Some tb')\<rparr>)))))"

section \<open>The program\<close>

text \<open>
  \<^verbatim>\<open>getTableName\<close>: one discovery call, whose exception is not caught; the \<^verbatim>\<open>tablename\<close>
  attribute of the first instance, \<^verbatim>\<open>null\<close> when there is no instance. An instance
  without attributes makes the property read throw.
\<close>

definition getTableName :: "world \<Rightarrow> (exn + jsval) \<times> world" where
  "getTableName w =
     (let w1 = w\<lparr>lookups := Suc (lookups w)\<rparr> in
      case discovery w of
        Inl e \<Rightarrow> (Inl e, w1)
      | Inr response \<Rightarrow>
          (case Instances response of
             None \<Rightarrow> (Inr JNull, w1)
           | Some [] \<Rightarrow> (Inr JNull, w1)
           | Some (first # others) \<Rightarrow>
               (case Attributes first of
                  None \<Rightarrow>
                    (Inl (TypeError (ascii
                       ''Cannot read properties of undefined (reading 'tablename')'')), w1)
                | Some attributes \<Rightarrow>
                    (case map_of attributes (ascii ''tablename'') of
                       None \<Rightarrow> (Inr JUndefined, w1)
                     | Some name \<Rightarrow> (Inr (JStr name), w1)))))"

text \<open>
  What the adapter functions return: the response of the store (or the list of courses),
  or the object \<^verbatim>\<open>{error: err.message}\<close> built in their catch blocks. The router tests
  \<^verbatim>\<open>.error\<close> for truthiness: an error object with an empty message passes as a success.
\<close>

datatype 'a outcome = Returned 'a | ErrorObject jsstring

definition hasError :: "'a outcome \<Rightarrow> bool" where
  "hasError r = (case r of Returned x \<Rightarrow> False | ErrorObject m \<Rightarrow> m \<noteq> [])"

definition errorOf :: "'a outcome \<Rightarrow> jsstring" where
  "errorOf r = (case r of Returned x \<Rightarrow> [] | ErrorObject m \<Rightarrow> m)"

text \<open>
  The \<^verbatim>\<open>TypeError\<close> of reading the property \<open>name\<close> of \<open>v\<close>, which is \<^verbatim>\<open>undefined\<close> or
  \<^verbatim>\<open>null\<close>, with the message of V8.
\<close>

definition readOf :: "jsval \<Rightarrow> jsstring \<Rightarrow> exn" where
  "readOf v name =
     TypeError (ascii ''Cannot read properties of ''
       @ (if v = JNull then ascii ''null'' else ascii ''undefined'')
       @ ascii '' (reading '' @ [39] @ name @ [39] @ ascii '')'')"

text \<open>
  The command of \<^verbatim>\<open>putItemDB\<close>, in the order the object literal is evaluated: the
  number of the id, then the two decoded fields. Each of them may throw.
\<close>

definition putCommand :: "runtime \<Rightarrow> jsval \<Rightarrow> jsval \<Rightarrow> exn + command" where
  "putCommand rt courseObject tableName =
     (if nullish courseObject then Inl (readOf courseObject (ascii ''id''))
      else case ToNumber rt (property courseObject (ascii ''id'')) of
        Inl e \<Rightarrow> Inl e
      | Inr ID \<Rightarrow>
          (case decodeURIComponent rt (property courseObject (ascii ''courseCoverArt'')) of
             Inl e \<Rightarrow> Inl e
           | Inr CoverArt \<Rightarrow>
               (case decodeURIComponent rt (property courseObject (ascii ''courseUrl'')) of
                  Inl e \<Rightarrow> Inl e
                | Inr CourseUrl \<Rightarrow>
                    Inr (PutCommand tableName
                      [(ascii ''ID'', JNum ID),
                       (ascii ''CourseName'', property courseObject (ascii ''courseName'')),
                       (ascii ''CoverArt'', JStr CoverArt),
                       (ascii ''CourseUrl'', JStr CourseUrl),
                       (ascii ''Author'', property courseObject (ascii ''courseAuthor''))]))))"

definition putItemDB :: "runtime \<Rightarrow> jsval \<Rightarrow> jsval \<Rightarrow> world \<Rightarrow> reply outcome \<times> world" where
  "putItemDB rt courseObject tableName w =
     (case putCommand rt courseObject tableName of
        Inl err \<Rightarrow> (ErrorObject (message err), w)
      | Inr command \<Rightarrow>
          (case send command w of
             (Inl err, w1) \<Rightarrow> (ErrorObject (message err), w1)
           | (Inr response, w1) \<Rightarrow> (Returned response, w1)))"

definition updateCommand :: "runtime \<Rightarrow> jsval \<Rightarrow> jsval \<Rightarrow> exn + command" where
  "updateCommand rt courseObject tableName =
     (if nullish courseObject then Inl (readOf courseObject (ascii ''id''))
      else case ToNumber rt (property courseObject (ascii ''id'')) of
        Inl e \<Rightarrow> Inl e
      | Inr ID \<Rightarrow>
          (case decodeURIComponent rt (property courseObject (ascii ''courseCoverArt'')) of
             Inl e \<Rightarrow> Inl e
           | Inr coverart \<Rightarrow>
               (case decodeURIComponent rt (property courseObject (ascii ''courseUrl'')) of
                  Inl e \<Rightarrow> Inl e
                | Inr url \<Rightarrow>
                    Inr (UpdateCommand tableName ID
                      [(ascii '':name'', property courseObject (ascii ''courseName'')),
                       (ascii '':coverart'', JStr coverart),
                       (ascii '':url'', JStr url),
                       (ascii '':author'', property courseObject (ascii ''courseAuthor''))]))))"

definition updateItemDB :: "runtime \<Rightarrow> jsval \<Rightarrow> jsval \<Rightarrow> world \<Rightarrow> reply outcome \<times> world" where
  "updateItemDB rt courseObject tableName w =
     (case updateCommand rt courseObject tableName of
        Inl err \<Rightarrow> (ErrorObject (message err), w)
      | Inr command \<Rightarrow>
          (case send command w of
             (Inl err, w1) \<Rightarrow> (ErrorObject (message err), w1)
           | (Inr response, w1) \<Rightarrow> (Returned response, w1)))"

text \<open>
  \<^verbatim>\<open>getItemDB\<close>: \<^verbatim>\<open>null\<close> (here \<open>None\<close>) at once when \<^verbatim>\<open>!id && id !== 0\<close>, and \<^verbatim>\<open>null\<close>
  again when anything in the try block throws.
\<close>

definition getItemDB :: "runtime \<Rightarrow> jsval \<Rightarrow> jsval \<Rightarrow> world \<Rightarrow> reply option \<times> world" where
  "getItemDB rt id' tableName w =
     (if \<not> truthy id' \<and> id' \<noteq> JNum (Fin 0) then (None, w)
      else case ToNumber rt id' of
        Inl err \<Rightarrow> (None, w)
      | Inr ID \<Rightarrow>
          (case send (GetCommand tableName ID) w of
             (Inl err, w1) \<Rightarrow> (None, w1)
           | (Inr response, w1) \<Rightarrow> (Some response, w1)))"

text \<open>\<^verbatim>\<open>response.Item\<close>: only the answer to a get that found the record has one.\<close>

definition Item :: "reply \<Rightarrow> jsval" where
  "Item response = (case response of GetOutput (Some i) \<Rightarrow> JObj i | _ \<Rightarrow> JUndefined)"

text \<open>
  The callback that \<^verbatim>\<open>getAllItemsDB\<close> maps over the scanned items: fetch the record of
  the item's \<^verbatim>\<open>ID\<close> and push its \<^verbatim>\<open>Item\<close> when the fetch did not return \<^verbatim>\<open>null\<close>. The
  fetches are issued in the order of the items; the model completes them in that order
  too, where the program pushes in the order of completion, so only what does not depend
  on the order of the list is proved of it.
\<close>

definition fetchCourse :: "runtime \<Rightarrow> jsval \<Rightarrow> item \<Rightarrow> jsval list \<times> world \<Rightarrow> jsval list \<times> world" where
  "fetchCourse rt tableName i state =
     (case state of
        (coursesList, w) \<Rightarrow>
          (case getItemDB rt (property (JObj i) (ascii ''ID'')) tableName w of
             (None, w1) \<Rightarrow> (coursesList, w1)
           | (Some course, w1) \<Rightarrow> (coursesList @ [Item course], w1)))"

definition getAllItemsDB :: "runtime \<Rightarrow> jsval \<Rightarrow> world \<Rightarrow> jsval list outcome \<times> world" where
  "getAllItemsDB rt tableName w =
     (case send (ScanCommand tableName) w of
        (Inl err, w1) \<Rightarrow> (ErrorObject (message err), w1)
      | (Inr response, w1) \<Rightarrow>
          (case response of
             ScanOutput Items \<Rightarrow>
               (case fold (fetchCourse rt tableName) Items ([], w1) of
                  (coursesList, w2) \<Rightarrow> (Returned coursesList, w2))
           | _ \<Rightarrow> (ErrorObject (message (readOf JUndefined (ascii ''map''))), w1)))"

text \<open>
  The program is asynchronous: while \<^verbatim>\<open>getAllItemsDB\<close> awaits the answer to its scan, the
  handlers of other requests run, and what they do to the store has happened when the
  fetches start. \<open>getAllItemsDBmeanwhile other\<close> is \<^verbatim>\<open>getAllItemsDB\<close> in such a run,
  \<open>other\<close> being what the other handlers do to the world during that await;
  \<^verbatim>\<open>getAllItemsDB\<close> above is the run in which they do nothing.
\<close>

definition getAllItemsDBmeanwhile ::
    "(world \<Rightarrow> world) \<Rightarrow> runtime \<Rightarrow> jsval \<Rightarrow> world \<Rightarrow> jsval list outcome \<times> world" where
  "getAllItemsDBmeanwhile other rt tableName w =
     (case send (ScanCommand tableName) w of
        (Inl err, w1) \<Rightarrow> (ErrorObject (message err), other w1)
      | (Inr response, w1) \<Rightarrow>
          (case response of
             ScanOutput Items \<Rightarrow>
               (case fold (fetchCourse rt tableName) Items ([], other w1) of
                  (coursesList, w2) \<Rightarrow> (Returned coursesList, w2))
           | _ \<Rightarrow> (ErrorObject (message (readOf JUndefined (ascii ''map''))), other w1)))"

definition deleteItemDB :: "runtime \<Rightarrow> jsval \<Rightarrow> jsval \<Rightarrow> world \<Rightarrow> reply outcome \<times> world" where
  "deleteItemDB rt id' tableName w =
     (case ToNumber rt id' of
        Inl err \<Rightarrow> (ErrorObject (message err), w)
      | Inr ID \<Rightarrow>
          (case send (DeleteCommand tableName ID) w of
             (Inl err, w1) \<Rightarrow> (ErrorObject (message err), w1)
           | (Inr response, w1) \<Rightarrow> (Returned response, w1)))"

text \<open>
  What \<^verbatim>\<open>requestHandler\<close> returns: the status code and the object that it hands to
  \<^verbatim>\<open>JSON.stringify\<close> for the body.
\<close>

record response =
  statusCode :: nat
  body :: jsval

definition failure :: "nat \<Rightarrow> jsstring \<Rightarrow> response" where
  "failure code msg =
     \<lparr>statusCode = code,
      body = JObj [(ascii ''success'', JBool False), (ascii ''error'', JStr msg)]\<rparr>"

definition unable :: "jsstring \<Rightarrow> jsstring \<Rightarrow> response" where
  "unable requestAction msg =
     failure 500 (ascii ''Unable to process request for '' @ requestAction @ ascii '': '' @ msg)"

definition succeeded :: "jsstring \<Rightarrow> response" where
  "succeeded requestAction =
     \<lparr>statusCode = 200,
      body = JObj [(ascii ''success'', JBool True), (ascii ''action'', JStr requestAction)]\<rparr>"

text \<open>The value of \<^verbatim>\<open>allCourses\<close> in the body of a listing: the array, or the error object.\<close>

definition listed :: "jsval list outcome \<Rightarrow> jsval" where
  "listed r =
     (case r of Returned coursesList \<Rightarrow> JArr coursesList
      | ErrorObject m \<Rightarrow> JObj [(ascii ''error'', JStr m)])"

text \<open>
  \<^verbatim>\<open>requestHandler\<close>. \<open>Inl\<close> is an exception that leaves the function: one of the
  discovery call, of \<^verbatim>\<open>Number(requestData.id)\<close>, or of the template literal of the
  default case.
\<close>

definition requestHandler :: "runtime \<Rightarrow> jsval \<Rightarrow> world \<Rightarrow> (exn + response) \<times> world" where
  "requestHandler rt query w =
     (if \<not> truthy query
      then (Inr (failure 400 (ascii ''Invalid Request: Action not provided'')), w)
      else case getTableName w of
        (Inl e, w1) \<Rightarrow> (Inl e, w1)
      | (Inr tableName, w1) \<Rightarrow>
          (if \<not> truthy tableName
           then (Inr (failure 500
                   (ascii ''Internal Server Error: Could not find the Database'')), w1)
           else let requestData = query;
                    requestAction = property requestData (ascii ''action'')
                in case ToNumber rt (property requestData (ascii ''id'')) of
                  Inl e \<Rightarrow> (Inl e, w1)
                | Inr courseId \<Rightarrow>
                    (if requestAction = JStr (ascii ''allCourses'') then
                       (case getAllItemsDB rt tableName w1 of
                          (allCourses, w2) \<Rightarrow>
                            (if hasError allCourses
                             then (Inr (unable (ascii ''allCourses'') (errorOf allCourses)), w2)
                             else (Inr \<lparr>statusCode = 200,
                                        body = JObj [(ascii ''success'', JBool True),
                                                     (ascii ''action'', requestAction),
                                                     (ascii ''allCourses'', listed allCourses)]\<rparr>,
                                   w2)))
                     else if requestAction = JStr (ascii ''addCourse'') then
                       (case putItemDB rt requestData tableName w1 of
                          (addCourse, w2) \<Rightarrow>
                            (if hasError addCourse
                             then (Inr (unable (ascii ''addCourse'') (errorOf addCourse)), w2)
                             else (Inr (succeeded (ascii ''addCourse'')), w2)))
                     else if requestAction = JStr (ascii ''editCourse'') then
                       (case updateItemDB rt requestData tableName w1 of
                          (editCourse, w2) \<Rightarrow>
                            (if hasError editCourse
                             then (Inr (unable (ascii ''editCourse'') (errorOf editCourse)), w2)
                             else (Inr (succeeded (ascii ''editCourse'')), w2)))
                     else if requestAction = JStr (ascii ''removeCourse'') then
                       (case deleteItemDB rt (JNum courseId) tableName w1 of
                          (removeCourse, w2) \<Rightarrow>
                            (if hasError removeCourse
                             then (Inr (unable (ascii ''removeCourse'') (errorOf removeCourse)), w2)
                             else (Inr (succeeded (ascii ''removeCourse'')), w2)))
                     else
                       (case ToString rt requestAction of
                          Inl e \<Rightarrow> (Inl e, w1)
                        | Inr shown \<Rightarrow>
                            (Inr (failure 400
                                    (ascii ''Invalid Request: Action '' @ shown @ ascii '' ''
                                       @ typeof requestAction @ ascii '' not found'')), w1)))))"

section \<open>Example data\<close>

text \<open>
  A runtime for the examples. It reads a string of decimal digits as the number they
  denote and anything else as \<^verbatim>\<open>NaN\<close>, and prints the three special values; the examples
  convert digit strings only and print no finite number.
\<close>

fun decimalValue :: "jsstring \<Rightarrow> nat \<Rightarrow> nat option" where
  "decimalValue [] acc = Some acc"
| "decimalValue (c # cs) acc =
     (if 48 \<le> unat c \<and> unat c \<le> 57 then decimalValue cs (10 * acc + (unat c - 48))
      else None)"

definition exampleRuntime :: runtime where
  "exampleRuntime =
     \<lparr>StringToNumber = (\<lambda>s. case decimalValue s 0 of None \<Rightarrow> NaN | Some n \<Rightarrow> Fin (of_nat n)),
      NumberToString = (\<lambda>n. case n of NaN \<Rightarrow> ascii ''NaN'' | PosInfinity \<Rightarrow> ascii ''Infinity''
                           | NegInfinity \<Rightarrow> ascii ''-Infinity'' | Fin q \<Rightarrow> [])\<rparr>"

text \<open>
  A world whose discovery service knows one instance, with the table name \<^verbatim>\<open>courses\<close>,
  and whose store has that one table with the given items and fails the calls at the
  given positions.
\<close>

definition registered :: "exn + discoverOutput" where
  "registered =
     Inr \<lparr>Instances = Some [\<lparr>Attributes = Some [(ascii ''tablename'', ascii ''courses'')]\<rparr>]\<rparr>"

definition courses :: jsval where
  "courses = JStr (ascii ''courses'')"

definition exampleWorld :: "table \<Rightarrow> nat list \<Rightarrow> world" where
  "exampleWorld tb failing =
     \<lparr>discovery = registered,
      lookups = 0,
      tables = (\<lambda>t. if t = courses then Some tb else None),
      faults = (\<lambda>n. if n \<in> set failing then Some (ascii ''Service unavailable'') else None),
      sent = []\<rparr>"

text \<open>The same world with a discovery service that knows no instance.\<close>

definition unregistered :: world where
  "unregistered = (exampleWorld [] [])\<lparr>discovery := Inr \<lparr>Instances = Some []\<rparr>\<rparr>"

text \<open>The course of the specification's scenario, as submitted and as stored.\<close>

definition algoQuery :: "string \<Rightarrow> jsval" where
  "algoQuery action =
     JObj [(ascii ''action'', JStr (ascii action)),
           (ascii ''id'', JStr (ascii ''1'')),
           (ascii ''courseName'', JStr (ascii ''Algo'')),
           (ascii ''courseCoverArt'', JStr (ascii ''%2Fimg%2Fa.png'')),
           (ascii ''courseUrl'', JStr (ascii ''http%3A%2F%2Fx.test'')),
           (ascii ''courseAuthor'', JStr (ascii ''Ada''))]"

definition algoItem :: item where
  "algoItem =
     [(ascii ''ID'', JNum (Fin 1)),
      (ascii ''CourseName'', JStr (ascii ''Algo'')),
      (ascii ''CoverArt'', JStr (ascii ''/img/a.png'')),
      (ascii ''CourseUrl'', JStr (ascii ''http://x.test'')),
      (ascii ''Author'', JStr (ascii ''Ada''))]"

text \<open>A query with an action and nothing else.\<close>

definition actionQuery :: "jsval \<Rightarrow> jsval" where
  "actionQuery action = JObj [(ascii ''action'', action)]"

text \<open>A second course, and a table with both.\<close>

definition logicItem :: item where
  "logicItem =
     [(ascii ''ID'', JNum (Fin 2)),
      (ascii ''CourseName'', JStr (ascii ''Logic'')),
      (ascii ''CoverArt'', JStr (ascii ''/img/l.png'')),
      (ascii ''CourseUrl'', JStr (ascii ''http://y.test'')),
      (ascii ''Author'', JStr (ascii ''Alan''))]"

definition twoCourses :: table where
  "twoCourses = [(1, algoItem), (2, logicItem)]"

text \<open>The attribute \<open>name\<close> of the record that table \<open>t\<close> holds under the key \<open>k\<close>.\<close>

definition stored :: "world \<Rightarrow> jsval \<Rightarrow> rat \<Rightarrow> jsstring \<Rightarrow> jsval" where
  "stored w t k name =
     (case tables w t of
        None \<Rightarrow> JUndefined
      | Some tb \<Rightarrow> (case map_of tb k of None \<Rightarrow> JUndefined | Some i \<Rightarrow> property (JObj i) name))"

text \<open>
  An edit of course 1 whose \<^verbatim>\<open>courseUrl\<close> ends in a lone percent sign, and a course whose
  cover art was encoded twice.
\<close>

definition brokenEdit :: jsval where
  "brokenEdit =
     JObj [(ascii ''action'', JStr (ascii ''editCourse'')),
           (ascii ''id'', JStr (ascii ''1'')),
           (ascii ''courseName'', JStr (ascii ''Algo 2'')),
           (ascii ''courseCoverArt'', JStr (ascii ''%2Fimg%2Fb.png'')),
           (ascii ''courseUrl'', JStr (ascii ''http://x.test/100%'')),
           (ascii ''courseAuthor'', JStr (ascii ''Ada''))]"

definition twiceEncoded :: jsval where
  "twiceEncoded =
     JObj [(ascii ''action'', JStr (ascii ''addCourse'')),
           (ascii ''id'', JStr (ascii ''3'')),
           (ascii ''courseName'', JStr (ascii ''Sets'')),
           (ascii ''courseCoverArt'', JStr (ascii ''%2541'')),
           (ascii ''courseUrl'', JStr (ascii ''http://z.test'')),
           (ascii ''courseAuthor'', JStr (ascii ''Emmy''))]"

text \<open>The example world with a discovery service whose one instance has the given attributes.\<close>

definition attributed :: "(jsstring \<times> jsstring) list \<Rightarrow> world" where
  "attributed attributes =
     (exampleWorld [] [])\<lparr>discovery := Inr \<lparr>Instances = Some [\<lparr>Attributes = Some attributes\<rparr>]\<rparr>\<rparr>"

text \<open>The example world after the course of the scenario was added to its empty table.\<close>

definition added :: "nat list \<Rightarrow> world" where
  "added failing = (exampleWorld [(1, algoItem)] failing)\<lparr>sent := [PutCommand courses algoItem]\<rparr>"

text \<open>An edit of course 1, and the record it leaves.\<close>

definition algoEdit :: jsval where
  "algoEdit =
     JObj [(ascii ''action'', JStr (ascii ''editCourse'')),
           (ascii ''id'', JStr (ascii ''1'')),
           (ascii ''courseName'', JStr (ascii ''Algo 2'')),
           (ascii ''courseCoverArt'', JStr (ascii ''%2Fimg%2Fb.png'')),
           (ascii ''courseUrl'', JStr (ascii ''http%3A%2F%2Fx.test%2F2'')),
           (ascii ''courseAuthor'', JStr (ascii ''Ada L''))]"

definition editedItem :: item where
  "editedItem =
     [(ascii ''ID'', JNum (Fin 1)),
      (ascii ''CourseName'', JStr (ascii ''Algo 2'')),
      (ascii ''CoverArt'', JStr (ascii ''/img/b.png'')),
      (ascii ''CourseUrl'', JStr (ascii ''http://x.test/2'')),
      (ascii ''Author'', JStr (ascii ''Ada L''))]"

text \<open>The values of that edit's update command, and the example world after the edit.\<close>

definition editValues :: item where
  "editValues =
     [(ascii '':name'', JStr (ascii ''Algo 2'')),
      (ascii '':coverart'', JStr (ascii ''/img/b.png'')),
      (ascii '':url'', JStr (ascii ''http://x.test/2'')),
      (ascii '':author'', JStr (ascii ''Ada L''))]"

definition edited :: world where
  "edited = (exampleWorld [(1, editedItem)] [])
              \<lparr>sent := [UpdateCommand courses (Fin 1) editValues]\<rparr>"

text \<open>What another request does that removes course 2: its delete call.\<close>

definition removeLogic :: "world \<Rightarrow> world" where
  "removeLogic w = snd (deleteItemDB exampleRuntime (JNum (Fin 2)) courses w)"

section \<open>Basic facts\<close>

declare Decode.simps [simp del]

lemma sent_send: "sent (snd (send c w)) = sent w @ [c]"
  by (simp add: send_def Let_def split: sum.splits option.splits prod.splits)

lemma getTableName_no_instance:
  assumes "discovery w = Inr r" and "Instances r = None \<or> Instances r = Some []"
  shows "getTableName w = (Inr JNull, w\<lparr>lookups := Suc (lookups w)\<rparr>)"
  using assms by (auto simp: getTableName_def)

lemma getTableName_first_instance:
  assumes "discovery w = Inr r" and "Instances r = Some (first # others)"
    and "Attributes first = Some attributes"
  shows "getTableName w =
           (Inr (case map_of attributes (ascii ''tablename'') of
                   None \<Rightarrow> JUndefined | Some name \<Rightarrow> JStr name),
            w\<lparr>lookups := Suc (lookups w)\<rparr>)"
  using assms by (auto simp: getTableName_def split: option.splits)

lemma requestHandler_unresolved:
  assumes "truthy query" and "getTableName w = (Inr tableName, w1)" and "\<not> truthy tableName"
  shows "requestHandler rt query w =
           (Inr (failure 500 (ascii ''Internal Server Error: Could not find the Database'')), w1)"
  using assms by (simp add: requestHandler_def)

section \<open>The store client\<close>

lemma send_succeeds:
  assumes "commandKey c = Inr key" and "faults w (length (sent w)) = None"
    and "tables w (TableName c) = Some tb"
  shows "send c w =
           (Inr (fst (execute c key tb)),
            w\<lparr>sent := sent w @ [c],
              tables := (tables w)(TableName c := Some (snd (execute c key tb)))\<rparr>)"
  using assms by (simp add: send_def Let_def split: prod.splits)

lemma send_fails:
  assumes "commandKey c = Inr key" and "faults w (length (sent w)) = Some m"
  shows "send c w = (Inl (ServiceError m), w\<lparr>sent := sent w @ [c]\<rparr>)"
  using assms by (simp add: send_def Let_def)

lemma send_Inr:
  assumes "send c w = (Inr out, w1)"
  shows "\<exists>key tb. commandKey c = Inr key \<and> faults w (length (sent w)) = None
           \<and> tables w (TableName c) = Some tb \<and> out = fst (execute c key tb)
           \<and> w1 = w\<lparr>sent := sent w @ [c],
                     tables := (tables w)(TableName c := Some (snd (execute c key tb)))\<rparr>"
  using assms
  by (auto simp: send_def Let_def split: sum.splits option.splits prod.splits)

lemma send_get:
  assumes "tables w t = Some tb"
  shows "send (GetCommand t (Fin k)) w =
           ((case faults w (length (sent w)) of
               None \<Rightarrow> Inr (GetOutput (map_of tb k)) | Some m \<Rightarrow> Inl (ServiceError m)),
            w\<lparr>sent := sent w @ [GetCommand t (Fin k)]\<rparr>)"
proof (cases "faults w (length (sent w))")
  case None
  have key: "commandKey (GetCommand t (Fin k)) = Inr (Some k)"
    by (simp add: commandKey_def numericKey_def)
  have same: "(tables w)(t := Some tb) = tables w"
    using assms by (rule fun_upd_idem)
  show ?thesis
    using send_succeeds[OF key None, of tb] assms None
    by (simp add: TableName_def execute_def same)
next
  case (Some m)
  have key: "commandKey (GetCommand t (Fin k)) = Inr (Some k)"
    by (simp add: commandKey_def numericKey_def)
  show ?thesis using send_fails[OF key Some] Some by simp
qed

lemma getItemDB_key:
  assumes "tables w t = Some tb"
  shows "getItemDB rt (JNum (Fin k)) t w =
           ((case faults w (length (sent w)) of
               None \<Rightarrow> Some (GetOutput (map_of tb k)) | Some m \<Rightarrow> None),
            w\<lparr>sent := sent w @ [GetCommand t (Fin k)]\<rparr>)"
  by (simp add: getItemDB_def send_get[OF assms] split: option.splits)

lemma property_ID: "property (JObj [(ascii ''ID'', v)]) (ascii ''ID'') = v"
  by simp

lemma fetchCourse_key:
  assumes "tables w t = Some tb"
  shows "fetchCourse rt t [(ascii ''ID'', JNum (Fin k))] (coursesList, w) =
           ((case faults w (length (sent w)) of
               None \<Rightarrow> coursesList @ [Item (GetOutput (map_of tb k))] | Some m \<Rightarrow> coursesList),
            w\<lparr>sent := sent w @ [GetCommand t (Fin k)]\<rparr>)"
  unfolding fetchCourse_def property_ID
  by (simp add: getItemDB_key[OF assms] split: option.splits)

lemma fold_fetchCourse:
  assumes "tables w t = Some tb"
  shows "fold (fetchCourse rt t) (map (\<lambda>k. [(ascii ''ID'', JNum (Fin k))]) ks) (coursesList, w) =
           (coursesList @ map (\<lambda>(n, k). Item (GetOutput (map_of tb k)))
                            (filter (\<lambda>(n, k). faults w n = None)
                               (enumerate (length (sent w)) ks)),
            w\<lparr>sent := sent w @ map (\<lambda>k. GetCommand t (Fin k)) ks\<rparr>)"
  using assms
proof (induction ks arbitrary: coursesList w)
  case Nil
  then show ?case by simp
next
  case (Cons k ks)
  let ?w1 = "w\<lparr>sent := sent w @ [GetCommand t (Fin k)]\<rparr>"
  have tb: "tables ?w1 t = Some tb" using Cons.prems by simp
  show ?case
    by (simp add: fetchCourse_key[OF Cons.prems] Cons.IH[OF tb] split: option.splits)
qed

lemma send_scan:
  assumes "tables w t = Some tb" and "faults w (length (sent w)) = None"
  shows "send (ScanCommand t) w =
           (Inr (ScanOutput (map (\<lambda>k. [(ascii ''ID'', JNum (Fin k))]) (map fst tb))),
            w\<lparr>sent := sent w @ [ScanCommand t]\<rparr>)"
proof -
  have key: "commandKey (ScanCommand t) = Inr None"
    by (simp add: commandKey_def)
  have same: "(tables w)(t := Some tb) = tables w"
    using assms(1) by (rule fun_upd_idem)
  show ?thesis
    using send_succeeds[OF key assms(2), of tb] assms(1)
    by (simp add: TableName_def execute_def same split_def)
qed

lemma getAllItemsDB_scanned:
  assumes "tables w t = Some tb" and "faults w (length (sent w)) = None"
  shows "getAllItemsDB rt t w =
           (Returned (map (\<lambda>(n, k). Item (GetOutput (map_of tb k)))
                        (filter (\<lambda>(n, k). faults w n = None)
                           (enumerate (Suc (length (sent w))) (map fst tb)))),
            w\<lparr>sent := sent w @ ScanCommand t # map (\<lambda>k. GetCommand t (Fin k)) (map fst tb)\<rparr>)"
proof -
  let ?w1 = "w\<lparr>sent := sent w @ [ScanCommand t]\<rparr>"
  have tb: "tables ?w1 t = Some tb" using assms(1) by simp
  show ?thesis
    by (simp add: getAllItemsDB_def send_scan[OF assms] fold_fetchCourse[OF tb] del: map_map)
qed

section \<open>The router without a table\<close>

text \<open>
  C3. For every truthy query (whatever its action), when the discovery response has no
  instance, the router answers 500 with the error
  \<^verbatim>\<open>Internal Server Error: Could not find the Database\<close>; the world is the one before the
  request but for the one discovery call, so the store client was not called and no table
  changed.
\<close>

theorem unresolved_table_is_500:
  assumes "truthy query" and "discovery w = Inr r"
    and "Instances r = None \<or> Instances r = Some []"
  shows "requestHandler rt query w =
           (Inr \<lparr>statusCode = 500,
                 body = JObj [(ascii ''success'', JBool False),
                              (ascii ''error'', JStr (ascii
                                 ''Internal Server Error: Could not find the Database''))]\<rparr>,
            w\<lparr>lookups := Suc (lookups w)\<rparr>)
         \<and> sent (snd (requestHandler rt query w)) = sent w
         \<and> tables (snd (requestHandler rt query w)) = tables w"
proof -
  have name: "getTableName w = (Inr JNull, w\<lparr>lookups := Suc (lookups w)\<rparr>)"
    using assms(2,3) by (rule getTableName_no_instance)
  have "\<not> truthy JNull" by simp
  with assms(1) name have "requestHandler rt query w =
      (Inr (failure 500 (ascii ''Internal Server Error: Could not find the Database'')),
       w\<lparr>lookups := Suc (lookups w)\<rparr>)"
    by (rule requestHandler_unresolved)
  then show ?thesis by (simp add: failure_def)
qed

theorem unresolved_table_is_500_witness:
  "requestHandler exampleRuntime (algoQuery ''addCourse'') unregistered =
           (Inr \<lparr>statusCode = 500,
                 body = JObj [(ascii ''success'', JBool False),
                              (ascii ''error'', JStr (ascii
                                 ''Internal Server Error: Could not find the Database''))]\<rparr>,
            unregistered\<lparr>lookups := Suc (lookups unregistered)\<rparr>)
         \<and> sent (snd (requestHandler exampleRuntime (algoQuery ''addCourse'') unregistered))
             = sent unregistered
         \<and> tables (snd (requestHandler exampleRuntime (algoQuery ''addCourse'') unregistered))
             = tables unregistered"
proof -
  have "truthy (algoQuery ''addCourse'')" by (simp add: algoQuery_def)
  moreover have "discovery unregistered = Inr \<lparr>Instances = Some []\<rparr>"
    by (simp add: unregistered_def)
  moreover have "Instances \<lparr>Instances = Some []\<rparr> = None
                 \<or> Instances \<lparr>Instances = Some []\<rparr> = Some []"
    by simp
  ultimately show ?thesis by (rule unresolved_table_is_500)
qed

text \<open>
  C9. When the discovery response has a first instance whose attribute map has no
  \<^verbatim>\<open>tablename\<close>, or an empty one, the resolved name is \<^verbatim>\<open>undefined\<close> or the empty string;
  both are falsy, and the router answers every truthy query as it does without an
  instance.
\<close>

theorem missing_tablename_is_500:
  assumes "truthy query" and "discovery w = Inr r"
    and "Instances r = Some (first # others)"
    and "Attributes first = Some attributes"
    and "map_of attributes (ascii ''tablename'') = None
         \<or> map_of attributes (ascii ''tablename'') = Some []"
  shows "requestHandler rt query w =
           (Inr \<lparr>statusCode = 500,
                 body = JObj [(ascii ''success'', JBool False),
                              (ascii ''error'', JStr (ascii
                                 ''Internal Server Error: Could not find the Database''))]\<rparr>,
            w\<lparr>lookups := Suc (lookups w)\<rparr>)"
proof -
  let ?name = "case map_of attributes (ascii ''tablename'') of
                 None \<Rightarrow> JUndefined | Some name \<Rightarrow> JStr name"
  have name: "getTableName w = (Inr ?name, w\<lparr>lookups := Suc (lookups w)\<rparr>)"
    using assms(2,3,4) by (rule getTableName_first_instance)
  have "\<not> truthy ?name" using assms(5) by auto
  with assms(1) name have "requestHandler rt query w =
      (Inr (failure 500 (ascii ''Internal Server Error: Could not find the Database'')),
       w\<lparr>lookups := Suc (lookups w)\<rparr>)"
    by (rule requestHandler_unresolved)
  then show ?thesis by (simp add: failure_def)
qed

theorem missing_tablename_is_500_witness:
  "requestHandler exampleRuntime (algoQuery ''allCourses'') (attributed [(ascii ''tablename'', [])]) =
     (Inr \<lparr>statusCode = 500,
           body = JObj [(ascii ''success'', JBool False),
                        (ascii ''error'', JStr (ascii
                           ''Internal Server Error: Could not find the Database''))]\<rparr>,
      (attributed [(ascii ''tablename'', [])])
        \<lparr>lookups := Suc (lookups (attributed [(ascii ''tablename'', [])]))\<rparr>)"
proof -
  let ?w = "attributed [(ascii ''tablename'', [])]"
  have 1: "truthy (algoQuery ''allCourses'')" by (simp add: algoQuery_def)
  have 2: "discovery ?w = Inr \<lparr>Instances = Some [\<lparr>Attributes = Some [(ascii ''tablename'', [])]\<rparr>]\<rparr>"
    by (simp add: attributed_def)
  have 3: "Instances \<lparr>Instances = Some [\<lparr>Attributes = Some [(ascii ''tablename'', [])]\<rparr>]\<rparr>
             = Some (\<lparr>Attributes = Some [(ascii ''tablename'', [])]\<rparr> # [])"
    by simp
  have 4: "Attributes \<lparr>Attributes = Some [(ascii ''tablename'', [])]\<rparr>
             = Some [(ascii ''tablename'', [])]"
    by simp
  have 5: "map_of [(ascii ''tablename'', [])] (ascii ''tablename'') = None
           \<or> map_of [(ascii ''tablename'', [])] (ascii ''tablename'') = Some ([] :: jsstring)"
    by simp
  show ?thesis by (rule missing_tablename_is_500[OF 1 2 3 4 5])
qed

section \<open>Fetching one record\<close>

text \<open>
  C8. \<^verbatim>\<open>getItemDB\<close> returns \<^verbatim>\<open>null\<close> and leaves the world as it is (no call of the store
  client) when the id is \<^verbatim>\<open>undefined\<close> (also what an absent argument is), \<^verbatim>\<open>null\<close> or the
  empty string. With the number 0 it sends the get command for the key 0 and returns
  what the call gives.
\<close>

theorem getItemDB_missing_id:
  "getItemDB rt JUndefined tableName w = (None, w)
   \<and> getItemDB rt JNull tableName w = (None, w)
   \<and> getItemDB rt (JStr []) tableName w = (None, w)
   \<and> getItemDB rt (JNum (Fin 0)) tableName w =
       (case send (GetCommand tableName (Fin 0)) w of
          (Inl err, w1) \<Rightarrow> (None, w1) | (Inr response, w1) \<Rightarrow> (Some response, w1))
   \<and> sent (snd (getItemDB rt (JNum (Fin 0)) tableName w))
       = sent w @ [GetCommand tableName (Fin 0)]"
proof -
  have "sent (snd (getItemDB rt (JNum (Fin 0)) tableName w))
          = sent (snd (send (GetCommand tableName (Fin 0)) w))"
    by (simp add: getItemDB_def split: prod.splits sum.splits)
  then show ?thesis by (simp add: getItemDB_def sent_send)
qed

theorem getItemDB_missing_id_witness:
  "getItemDB exampleRuntime JUndefined courses (exampleWorld twoCourses []) = (None, exampleWorld twoCourses [])
   \<and> getItemDB exampleRuntime JNull courses (exampleWorld twoCourses []) = (None, exampleWorld twoCourses [])
   \<and> getItemDB exampleRuntime (JStr []) courses (exampleWorld twoCourses []) = (None, exampleWorld twoCourses [])
   \<and> getItemDB exampleRuntime (JNum (Fin 0)) courses (exampleWorld twoCourses []) =
       (Some (GetOutput None), (exampleWorld twoCourses [])\<lparr>sent := [GetCommand courses (Fin 0)]\<rparr>)"
proof -
  let ?w = "exampleWorld twoCourses []"
  have tb: "tables ?w courses = Some twoCourses" by (simp add: exampleWorld_def)
  have "getItemDB exampleRuntime (JNum (Fin 0)) courses ?w =
          (Some (GetOutput None), ?w\<lparr>sent := [GetCommand courses (Fin 0)]\<rparr>)"
    unfolding getItemDB_key[OF tb] by (simp add: exampleWorld_def twoCourses_def)
  then show ?thesis
    using getItemDB_missing_id[of exampleRuntime courses ?w] by simp
qed

section \<open>The router and the action\<close>

lemma requestHandler_default:
  assumes "truthy query" and "getTableName w = (Inr tableName, w1)" and "truthy tableName"
    and "ToNumber rt (property query (ascii ''id'')) = Inr courseId"
    and "property query (ascii ''action'') \<noteq> JStr (ascii ''allCourses'')"
    and "property query (ascii ''action'') \<noteq> JStr (ascii ''addCourse'')"
    and "property query (ascii ''action'') \<noteq> JStr (ascii ''editCourse'')"
    and "property query (ascii ''action'') \<noteq> JStr (ascii ''removeCourse'')"
  shows "requestHandler rt query w =
           (case ToString rt (property query (ascii ''action'')) of
              Inl e \<Rightarrow> (Inl e, w1)
            | Inr shown \<Rightarrow>
                (Inr (failure 400 (ascii ''Invalid Request: Action '' @ shown @ ascii '' ''
                        @ typeof (property query (ascii ''action'')) @ ascii '' not found'')), w1))"
  using assms by (simp add: requestHandler_def Let_def)

lemma getTableName_example:
  "getTableName (exampleWorld tb failing) = (Inr courses, (exampleWorld tb failing)\<lparr>lookups := 1\<rparr>)"
  by (simp add: getTableName_def exampleWorld_def registered_def courses_def)

lemma truthy_courses: "truthy courses"
  by (simp add: courses_def ascii_def)

lemma lookups_getTableName: "lookups (snd (getTableName w)) = Suc (lookups w)"
  by (simp add: getTableName_def Let_def split: sum.splits option.splits list.splits)

lemma requestHandler_no_query:
  "\<not> truthy query \<Longrightarrow>
     requestHandler rt query w =
       (Inr (failure 400 (ascii ''Invalid Request: Action not provided'')), w)"
  by (simp add: requestHandler_def)

lemma requestHandler_empty_object:
  assumes "getTableName w = (Inr tableName, w1)" and "truthy tableName"
  shows "requestHandler rt (JObj []) w =
           (Inr (failure 400 (ascii ''Invalid Request: Action undefined undefined not found'')), w1)"
proof -
  have "requestHandler rt (JObj []) w =
           (case ToString rt (property (JObj []) (ascii ''action'')) of
              Inl e \<Rightarrow> (Inl e, w1)
            | Inr shown \<Rightarrow>
                (Inr (failure 400 (ascii ''Invalid Request: Action '' @ shown @ ascii '' ''
                        @ typeof (property (JObj []) (ascii ''action'')) @ ascii '' not found'')), w1))"
    using assms by (intro requestHandler_default[where courseId = NaN]) simp_all
  then show ?thesis by (simp add: ascii_def)
qed

text \<open>
  C4. The guard of the router is \<^verbatim>\<open>!query\<close>: it refuses a query that is \<^verbatim>\<open>undefined\<close>,
  \<^verbatim>\<open>null\<close> or otherwise falsy (\<open>requestHandler_no_query\<close>). A query object without
  parameters is an object, and truthy: for it the router always asks the discovery
  service, and never answers with the error \<^verbatim>\<open>Invalid Request: Action not provided\<close>.
\<close>

theorem empty_query_is_not_refused:
  "lookups (snd (requestHandler rt (JObj []) w)) = Suc (lookups w)
   \<and> fst (requestHandler rt (JObj []) w) \<noteq>
       Inr \<lparr>statusCode = 400,
            body = JObj [(ascii ''success'', JBool False),
                         (ascii ''error'', JStr (ascii ''Invalid Request: Action not provided''))]\<rparr>"
proof (cases "getTableName w")
  case (Pair r w1)
  have w1: "lookups w1 = Suc (lookups w)"
    using lookups_getTableName[of w] Pair by simp
  show ?thesis
  proof (cases r)
    case (Inl e)
    with Pair have "requestHandler rt (JObj []) w = (Inl e, w1)"
      by (simp add: requestHandler_def)
    with w1 show ?thesis by simp
  next
    case (Inr tableName)
    show ?thesis
    proof (cases "truthy tableName")
      case True
      have "requestHandler rt (JObj []) w =
           (Inr (failure 400 (ascii ''Invalid Request: Action undefined undefined not found'')), w1)"
        using Pair Inr True by (intro requestHandler_empty_object) simp_all
      with w1 show ?thesis by (simp add: failure_def ascii_def)
    next
      case False
      have "requestHandler rt (JObj []) w =
           (Inr (failure 500 (ascii ''Internal Server Error: Could not find the Database'')), w1)"
        using Pair Inr False by (intro requestHandler_unresolved) simp_all
      with w1 show ?thesis by (simp add: failure_def)
    qed
  qed
qed



theorem empty_query_is_not_refused_witness:
  "requestHandler exampleRuntime (JObj []) (exampleWorld [] []) =
     (Inr \<lparr>statusCode = 400,
           body = JObj [(ascii ''success'', JBool False),
                        (ascii ''error'', JStr (ascii
                           ''Invalid Request: Action undefined undefined not found''))]\<rparr>,
      (exampleWorld [] [])\<lparr>lookups := 1\<rparr>)
   \<and> lookups (snd (requestHandler exampleRuntime (JObj []) (exampleWorld [] []))) = Suc (lookups (exampleWorld [] []))"
proof -
  have name: "getTableName (exampleWorld [] []) = (Inr courses, (exampleWorld [] [])\<lparr>lookups := 1\<rparr>)"
    by (simp add: getTableName_def exampleWorld_def registered_def courses_def)
  have "truthy courses" by (simp add: courses_def ascii_def)
  with name have "requestHandler exampleRuntime (JObj []) (exampleWorld [] []) =
      (Inr (failure 400 (ascii ''Invalid Request: Action undefined undefined not found'')),
       (exampleWorld [] [])\<lparr>lookups := 1\<rparr>)"
    by (rule requestHandler_empty_object)
  then show ?thesis
    using empty_query_is_not_refused[of exampleRuntime "exampleWorld [] []"]
    by (simp add: failure_def)
qed

text \<open>
  C7, as amended. For a truthy query whose action is none of \<^verbatim>\<open>allCourses\<close>,
  \<^verbatim>\<open>addCourse\<close>, \<^verbatim>\<open>editCourse\<close>, \<^verbatim>\<open>removeCourse\<close>, when the table name resolves to a
  truthy value and neither \<^verbatim>\<open>Number(id)\<close> nor the template literal throws, the router
  answers 400 with the error \<^verbatim>\<open>Invalid Request: Action <value> <type> not found\<close>; the
  world is changed by the discovery call only.
\<close>

theorem unknown_action_is_400:
  assumes "truthy query" and "getTableName w = (Inr tableName, w1)" and "truthy tableName"
    and "ToNumber rt (property query (ascii ''id'')) = Inr courseId"
    and "ToString rt (property query (ascii ''action'')) = Inr shown"
    and "property query (ascii ''action'') \<notin>
           {JStr (ascii ''allCourses''), JStr (ascii ''addCourse''),
            JStr (ascii ''editCourse''), JStr (ascii ''removeCourse'')}"
  shows "requestHandler rt query w =
           (Inr \<lparr>statusCode = 400,
                 body = JObj [(ascii ''success'', JBool False),
                              (ascii ''error'', JStr (ascii ''Invalid Request: Action '' @ shown
                                 @ ascii '' '' @ typeof (property query (ascii ''action''))
                                 @ ascii '' not found''))]\<rparr>,
            w1)"
proof -
  have "requestHandler rt query w =
           (case ToString rt (property query (ascii ''action'')) of
              Inl e \<Rightarrow> (Inl e, w1)
            | Inr shown \<Rightarrow>
                (Inr (failure 400 (ascii ''Invalid Request: Action '' @ shown @ ascii '' ''
                        @ typeof (property query (ascii ''action'')) @ ascii '' not found'')), w1))"
    using assms(6) by (intro requestHandler_default[OF assms(1-4)]) simp_all
  then show ?thesis using assms(5) by (simp add: failure_def)
qed

theorem unknown_action_is_400_witness:
  "requestHandler exampleRuntime (actionQuery (JStr (ascii ''bogus''))) (exampleWorld [] []) =
     (Inr \<lparr>statusCode = 400,
           body = JObj [(ascii ''success'', JBool False),
                        (ascii ''error'', JStr (ascii
                           ''Invalid Request: Action bogus string not found''))]\<rparr>,
      (exampleWorld [] [])\<lparr>lookups := 1\<rparr>)"
proof -
  let ?q = "actionQuery (JStr (ascii ''bogus''))"
  have action: "property ?q (ascii ''action'') = JStr (ascii ''bogus'')"
    by (simp add: actionQuery_def)
  have 1: "truthy ?q" by (simp add: actionQuery_def)
  have 2: "ToNumber exampleRuntime (property ?q (ascii ''id'')) = Inr NaN"
    by (simp add: actionQuery_def ascii_def)
  have 3: "ToString exampleRuntime (property ?q (ascii ''action'')) = Inr (ascii ''bogus'')"
    by (simp add: action)
  have 4: "property ?q (ascii ''action'') \<notin>
           {JStr (ascii ''allCourses''), JStr (ascii ''addCourse''),
            JStr (ascii ''editCourse''), JStr (ascii ''removeCourse'')}"
    unfolding action by (simp add: ascii_def)
  show ?thesis
    using unknown_action_is_400[OF 1 getTableName_example truthy_courses 2 3 4]
    unfolding action by (simp add: ascii_def)
qed

text \<open>
  C7, as stated, fails: without an instance the router answers the unknown action
  \<^verbatim>\<open>bogus\<close> with 500, and an action that is an object with an own \<^verbatim>\<open>toString\<close> property
  makes the template literal throw, so that the router returns no response at all.
\<close>

theorem unknown_action_counterexample:
  "requestHandler exampleRuntime (actionQuery (JStr (ascii ''bogus''))) unregistered =
     (Inr \<lparr>statusCode = 500,
           body = JObj [(ascii ''success'', JBool False),
                        (ascii ''error'', JStr (ascii
                           ''Internal Server Error: Could not find the Database''))]\<rparr>,
      unregistered\<lparr>lookups := 1\<rparr>)
   \<and> requestHandler exampleRuntime
         (actionQuery (JObj [(ascii ''toString'', JStr (ascii ''x''))])) (exampleWorld [] []) =
       (Inl (TypeError (ascii ''Cannot convert object to primitive value'')),
        (exampleWorld [] [])\<lparr>lookups := 1\<rparr>)"
proof -
  have "getTableName unregistered = (Inr JNull, unregistered\<lparr>lookups := 1\<rparr>)"
    by (simp add: getTableName_def unregistered_def exampleWorld_def)
  moreover have "truthy (actionQuery (JStr (ascii ''bogus'')))"
    by (simp add: actionQuery_def)
  moreover have "\<not> truthy JNull" by simp
  ultimately have a: "requestHandler exampleRuntime (actionQuery (JStr (ascii ''bogus''))) unregistered =
      (Inr (failure 500 (ascii ''Internal Server Error: Could not find the Database'')),
       unregistered\<lparr>lookups := 1\<rparr>)"
    using requestHandler_unresolved by blast
  let ?q = "actionQuery (JObj [(ascii ''toString'', JStr (ascii ''x''))])"
  have action: "property ?q (ascii ''action'') = JObj [(ascii ''toString'', JStr (ascii ''x''))]"
    by (simp add: actionQuery_def)
  have q: "truthy ?q" by (simp add: actionQuery_def)
  have n: "ToNumber exampleRuntime (property ?q (ascii ''id'')) = Inr NaN"
    by (simp add: actionQuery_def ascii_def)
  have "requestHandler exampleRuntime ?q (exampleWorld [] []) =
           (case ToString exampleRuntime (property ?q (ascii ''action'')) of
              Inl e \<Rightarrow> (Inl e, (exampleWorld [] [])\<lparr>lookups := 1\<rparr>)
            | Inr shown \<Rightarrow>
                (Inr (failure 400 (ascii ''Invalid Request: Action '' @ shown @ ascii '' ''
                        @ typeof (property ?q (ascii ''action'')) @ ascii '' not found'')),
                 (exampleWorld [] [])\<lparr>lookups := 1\<rparr>))"
    by (rule requestHandler_default[OF q getTableName_example truthy_courses n])
       (simp_all add: action)
  then have b: "requestHandler exampleRuntime ?q (exampleWorld [] []) =
       (Inl (TypeError (ascii ''Cannot convert object to primitive value'')),
        (exampleWorld [] [])\<lparr>lookups := 1\<rparr>)"
    by (simp add: action)
  from a b show ?thesis by (simp add: failure_def)
qed

section \<open>Listing the courses\<close>

lemma no_failure:
  "(\<And>i. i < length ks \<Longrightarrow> f (n + i) = None) \<Longrightarrow>
     filter (\<lambda>(i, k). f i = None) (enumerate n ks) = enumerate n ks"
proof (induction ks arbitrary: n)
  case Nil
  then show ?case by simp
next
  case (Cons k ks)
  have "f n = None" using Cons.prems[of 0] by simp
  moreover have "filter (\<lambda>(i, k). f i = None) (enumerate (Suc n) ks) = enumerate (Suc n) ks"
  proof (rule Cons.IH)
    fix i assume "i < length ks"
    then show "f (Suc n + i) = None" using Cons.prems[of "Suc i"] by simp
  qed
  ultimately show ?case by simp
qed

lemma one_failure:
  assumes "j < length ks" and "f (n + j) \<noteq> None"
    and "\<And>i. i < length ks \<Longrightarrow> i \<noteq> j \<Longrightarrow> f (n + i) = None"
  shows "length (filter (\<lambda>(i, k). f i = None) (enumerate n ks)) = length ks - 1"
  using assms
proof (induction ks arbitrary: n j)
  case Nil
  then show ?case by simp
next
  case (Cons k ks)
  show ?case
  proof (cases j)
    case 0
    have "filter (\<lambda>(i, k). f i = None) (enumerate (Suc n) ks) = enumerate (Suc n) ks"
    proof (rule no_failure)
      fix i assume "i < length ks"
      then show "f (Suc n + i) = None" using Cons.prems(3)[of "Suc i"] 0 by simp
    qed
    moreover have "f n \<noteq> None" using Cons.prems(2) 0 by simp
    ultimately show ?thesis by simp
  next
    case (Suc j')
    have head: "f n = None" using Cons.prems(3)[of 0] Suc by simp
    have "length (filter (\<lambda>(i, k). f i = None) (enumerate (Suc n) ks)) = length ks - 1"
    proof (rule Cons.IH[of j'])
      show "j' < length ks" using Cons.prems(1) Suc by simp
      show "f (Suc n + j') \<noteq> None" using Cons.prems(2) Suc by simp
      fix i assume "i < length ks" and "i \<noteq> j'"
      then show "f (Suc n + i) = None" using Cons.prems(3)[of "Suc i"] Suc by simp
    qed
    moreover have "0 < length ks" using Cons.prems(1) Suc by auto
    ultimately show ?thesis using head by simp
  qed
qed

lemma fetched_are_records:
  "set (map (\<lambda>(n, k). Item (GetOutput (map_of tb k)))
          (filter P (enumerate m (map fst tb)))) \<subseteq> (\<lambda>(k, i). JObj i) ` set tb"
proof
  fix c
  assume "c \<in> set (map (\<lambda>(n, k). Item (GetOutput (map_of tb k)))
                     (filter P (enumerate m (map fst tb))))"
  then obtain n k where nk: "(n, k) \<in> set (enumerate m (map fst tb))"
    and c: "c = Item (GetOutput (map_of tb k))"
    by auto
  from nk have "k \<in> fst ` set tb"
    by (auto simp: in_set_enumerate_eq)
  then obtain i where i: "map_of tb k = Some i"
    by (metis map_of_eq_None_iff not_Some_eq)
  then have "(k, i) \<in> set tb" by (rule map_of_SomeD)
  with c i show "c \<in> (\<lambda>(k, i). JObj i) ` set tb"
    by (force simp: Item_def)
qed

lemma getTableName_world:
  "getTableName w0 = (r, w) \<Longrightarrow> w = w0\<lparr>lookups := Suc (lookups w0)\<rparr>"
  by (auto simp: getTableName_def Let_def split: sum.splits option.splits list.splits)

lemma requestHandler_allCourses:
  assumes "truthy query" and "getTableName w0 = (Inr tableName, w)" and "truthy tableName"
    and "ToNumber rt (property query (ascii ''id'')) = Inr courseId"
    and "property query (ascii ''action'') = JStr (ascii ''allCourses'')"
    and "getAllItemsDB rt tableName w = (Returned coursesList, w2)"
  shows "requestHandler rt query w0 =
           (Inr \<lparr>statusCode = 200,
                 body = JObj [(ascii ''success'', JBool True),
                              (ascii ''action'', JStr (ascii ''allCourses'')),
                              (ascii ''allCourses'', JArr coursesList)]\<rparr>, w2)"
  using assms by (simp add: requestHandler_def Let_def hasError_def listed_def)

text \<open>
  C2. Take a table \<open>tb\<close> of N records, a scan that succeeds, and fetches of which
  exactly one, the one at position \<open>j\<close>, fails. Then \<^verbatim>\<open>getAllItemsDB\<close> returns a list (not
  an error object) of N - 1 entries, each a record of the table, and the router answers
  the \<^verbatim>\<open>allCourses\<close> request with 200 and a body of \<^verbatim>\<open>success\<close>, \<^verbatim>\<open>action\<close> and that
  list, with nothing in it that tells of the failed fetch.
\<close>

theorem one_failed_fetch_is_dropped:
  assumes "tables w t = Some tb"
    and "faults w (length (sent w)) = None"
    and "j < length tb"
    and "faults w (Suc (length (sent w)) + j) \<noteq> None"
    and "\<forall>i < length tb. i \<noteq> j \<longrightarrow> faults w (Suc (length (sent w)) + i) = None"
    and "truthy query"
    and "getTableName w0 = (Inr t, w)" and "truthy t"
    and "ToNumber rt (property query (ascii ''id'')) = Inr courseId"
    and "property query (ascii ''action'') = JStr (ascii ''allCourses'')"
  shows "\<exists>coursesList w2.
           getAllItemsDB rt t w = (Returned coursesList, w2)
           \<and> length coursesList = length tb - 1
           \<and> set coursesList \<subseteq> (\<lambda>(k, i). JObj i) ` set tb
           \<and> requestHandler rt query w0 =
               (Inr \<lparr>statusCode = 200,
                     body = JObj [(ascii ''success'', JBool True),
                                  (ascii ''action'', JStr (ascii ''allCourses'')),
                                  (ascii ''allCourses'', JArr coursesList)]\<rparr>, w2)"
proof -
  let ?ok = "\<lambda>(n, k). faults w n = None"
  let ?cs = "map (\<lambda>(n, k). Item (GetOutput (map_of tb k)))
                 (filter ?ok (enumerate (Suc (length (sent w))) (map fst tb)))"
  let ?w2 = "w\<lparr>sent := sent w @ ScanCommand t # map (\<lambda>k. GetCommand t (Fin k)) (map fst tb)\<rparr>"
  have all: "getAllItemsDB rt t w = (Returned ?cs, ?w2)"
    using assms(1,2) by (rule getAllItemsDB_scanned)
  have "length (filter ?ok (enumerate (Suc (length (sent w))) (map fst tb)))
          = length (map fst tb) - 1"
    using assms(3,4,5) by (intro one_failure[where j = j]) simp_all
  then have len: "length ?cs = length tb - 1" by simp
  have recs: "set ?cs \<subseteq> (\<lambda>(k, i). JObj i) ` set tb"
    by (rule fetched_are_records)
  have "requestHandler rt query w0 =
               (Inr \<lparr>statusCode = 200,
                     body = JObj [(ascii ''success'', JBool True),
                                  (ascii ''action'', JStr (ascii ''allCourses'')),
                                  (ascii ''allCourses'', JArr ?cs)]\<rparr>, ?w2)"
    using assms(6,7,8,9,10) all by (rule requestHandler_allCourses)
  with all len recs show ?thesis by blast
qed

theorem one_failed_fetch_is_dropped_witness:
  "\<exists>coursesList w2.
     getAllItemsDB exampleRuntime courses ((exampleWorld twoCourses [2])\<lparr>lookups := 1\<rparr>)
       = (Returned coursesList, w2)
     \<and> length coursesList = length twoCourses - 1
     \<and> set coursesList \<subseteq> (\<lambda>(k, i). JObj i) ` set twoCourses
     \<and> requestHandler exampleRuntime (actionQuery (JStr (ascii ''allCourses'')))
           (exampleWorld twoCourses [2]) =
         (Inr \<lparr>statusCode = 200,
               body = JObj [(ascii ''success'', JBool True),
                            (ascii ''action'', JStr (ascii ''allCourses'')),
                            (ascii ''allCourses'', JArr coursesList)]\<rparr>, w2)"
proof -
  let ?w0 = "exampleWorld twoCourses [2]"
  let ?w = "?w0\<lparr>lookups := 1\<rparr>"
  let ?q = "actionQuery (JStr (ascii ''allCourses''))"
  have 1: "tables ?w courses = Some twoCourses" by (simp add: exampleWorld_def)
  have 2: "faults ?w (length (sent ?w)) = None" by (simp add: exampleWorld_def)
  have 3: "1 < length twoCourses" by (simp add: twoCourses_def)
  have 4: "faults ?w (Suc (length (sent ?w)) + 1) \<noteq> None" by (simp add: exampleWorld_def)
  have 5: "\<forall>i < length twoCourses. i \<noteq> 1 \<longrightarrow> faults ?w (Suc (length (sent ?w)) + i) = None"
    by (simp add: exampleWorld_def twoCourses_def)
  have 6: "truthy ?q" by (simp add: actionQuery_def)
  have 7: "ToNumber exampleRuntime (property ?q (ascii ''id'')) = Inr NaN"
    by (simp add: actionQuery_def ascii_def)
  have 8: "property ?q (ascii ''action'') = JStr (ascii ''allCourses'')"
    by (simp add: actionQuery_def)
  show ?thesis
    by (rule one_failed_fetch_is_dropped[OF 1 2 3 4 5 6 getTableName_example truthy_courses 7 8])
qed

lemma one_failed_fetch_example:
  "requestHandler exampleRuntime (actionQuery (JStr (ascii ''allCourses'')))
           (exampleWorld twoCourses [2]) =
         (Inr \<lparr>statusCode = 200,
               body = JObj [(ascii ''success'', JBool True),
                            (ascii ''action'', JStr (ascii ''allCourses'')),
                            (ascii ''allCourses'', JArr [JObj algoItem])]\<rparr>,
          (exampleWorld twoCourses [2])\<lparr>lookups := 1,
             sent := [ScanCommand courses, GetCommand courses (Fin 1), GetCommand courses (Fin 2)]\<rparr>)"
proof -
  let ?w0 = "exampleWorld twoCourses [2]"
  let ?w = "?w0\<lparr>lookups := 1\<rparr>"
  let ?q = "actionQuery (JStr (ascii ''allCourses''))"
  have 1: "tables ?w courses = Some twoCourses" by (simp add: exampleWorld_def)
  have 2: "faults ?w (length (sent ?w)) = None" by (simp add: exampleWorld_def)
  have 6: "truthy ?q" by (simp add: actionQuery_def)
  have 7: "ToNumber exampleRuntime (property ?q (ascii ''id'')) = Inr NaN"
    by (simp add: actionQuery_def ascii_def)
  have 8: "property ?q (ascii ''action'') = JStr (ascii ''allCourses'')"
    by (simp add: actionQuery_def)
  have "getAllItemsDB exampleRuntime courses ?w =
          (Returned [JObj algoItem],
           ?w\<lparr>sent := [ScanCommand courses, GetCommand courses (Fin 1), GetCommand courses (Fin 2)]\<rparr>)"
    unfolding getAllItemsDB_scanned[OF 1 2]
    by (simp add: exampleWorld_def twoCourses_def enumerate_eq_zip Item_def upt_rec)
  from requestHandler_allCourses[OF 6 getTableName_example truthy_courses 7 8 this]
  show ?thesis by simp
qed

lemma length_filter_enumerate:
  "length (filter (\<lambda>(n, k). P n) (enumerate m ks)) = length (filter P [m..<m + length ks])"
proof (induction ks arbitrary: m)
  case Nil
  then show ?case by simp
next
  case (Cons k ks)
  have "[m..<m + length (k # ks)] = m # [Suc m..<Suc m + length ks]"
    by (subst upt_rec) simp
  then show ?case using Cons.IH[of "Suc m"] by simp
qed

lemma getAllItemsDBmeanwhile_nothing:
  "getAllItemsDBmeanwhile (\<lambda>w. w) rt t w = getAllItemsDB rt t w"
  by (simp add: getAllItemsDBmeanwhile_def getAllItemsDB_def)

lemma scanned_items:
  assumes "send (ScanCommand t) w = (Inr (ScanOutput Items), w1)"
  shows "\<exists>ks. Items = map (\<lambda>k. [(ascii ''ID'', JNum (Fin k))]) ks"
proof -
  obtain key tb where key: "commandKey (ScanCommand t) = Inr key"
    and out: "ScanOutput Items = fst (execute (ScanCommand t) key tb)"
    using send_Inr[OF assms] by blast
  from key have "key = None" by (simp add: commandKey_def)
  with out have "Items = map (\<lambda>k. [(ascii ''ID'', JNum (Fin k))]) (map fst tb)"
    by (simp add: execute_def split_def)
  then show ?thesis by blast
qed

lemma fold_fetchCourse_absent:
  assumes "tables w t = Some tb" and "j < length ks" and "map_of tb (ks ! j) = None"
    and "faults w (length (sent w) + j) = None"
  shows "JUndefined \<in> set (fst (fold (fetchCourse rt t)
                                 (map (\<lambda>k. [(ascii ''ID'', JNum (Fin k))]) ks) (coursesList, w)))
         \<and> length (fst (fold (fetchCourse rt t)
                           (map (\<lambda>k. [(ascii ''ID'', JNum (Fin k))]) ks) (coursesList, w)))
             = length coursesList
               + length (filter (\<lambda>n. faults w n = None)
                           [length (sent w)..<length (sent w) + length ks])"
proof -
  let ?m = "length (sent w)"
  have "(?m + j, ks ! j) \<in> set (enumerate ?m ks)"
    using assms(2) by (auto simp: in_set_enumerate_eq)
  with assms(4) have "(?m + j, ks ! j) \<in> set (filter (\<lambda>(n, k). faults w n = None) (enumerate ?m ks))"
    by simp
  moreover have "Item (GetOutput (map_of tb (ks ! j))) = JUndefined"
    using assms(3) by (simp add: Item_def)
  ultimately have "JUndefined \<in> set (map (\<lambda>(n, k). Item (GetOutput (map_of tb k)))
                        (filter (\<lambda>(n, k). faults w n = None) (enumerate ?m ks)))"
    by (force simp: image_iff)
  then show ?thesis
    by (simp add: fold_fetchCourse[OF assms(1)] length_filter_enumerate)
qed

lemma removeLogic_scanned:
  "removeLogic ((exampleWorld twoCourses [])\<lparr>sent := [ScanCommand courses]\<rparr>) =
     (exampleWorld [(1, algoItem)] [])
       \<lparr>sent := [ScanCommand courses, DeleteCommand courses (Fin 2)]\<rparr>"
proof -
  let ?w1 = "(exampleWorld twoCourses [])\<lparr>sent := [ScanCommand courses]\<rparr>"
  have key: "commandKey (DeleteCommand courses (Fin 2)) = Inr (Some 2)"
    by (simp add: commandKey_def numericKey_def)
  have ok: "faults ?w1 (length (sent ?w1)) = None" by (simp add: exampleWorld_def)
  have tb: "tables ?w1 (TableName (DeleteCommand courses (Fin 2))) = Some twoCourses"
    by (simp add: exampleWorld_def TableName_def)
  have del: "AList.delete 2 twoCourses = [(1 :: rat, algoItem)]"
    by (simp add: twoCourses_def)
  have "send (DeleteCommand courses (Fin 2)) ?w1 =
          (Inr DeleteOutput,
           (exampleWorld [(1, algoItem)] [])
             \<lparr>sent := [ScanCommand courses, DeleteCommand courses (Fin 2)]\<rparr>)"
    unfolding send_succeeds[OF key ok tb]
    by (simp add: execute_def del TableName_def exampleWorld_def fun_eq_iff)
  then show ?thesis by (simp add: removeLogic_def deleteItemDB_def)
qed

text \<open>
  C10. Let the scan of the listing return \<open>Items\<close>, and let the record of the scanned
  key \<open>k\<close>, the one at position \<open>j\<close>, be gone from the table when the fetches start
  (another request removed it meanwhile), so that the get of \<open>k\<close>, which does not fail,
  carries no \<^verbatim>\<open>Item\<close>. Then the listing returns a list and not an error, and the list
  contains \<^verbatim>\<open>undefined\<close>: the entry is not dropped. The list has one entry for each
  fetch that did not fail, whether the record was there or not, so an entry is left out
  only when the fetch returned \<^verbatim>\<open>null\<close>. When no other request does anything the run is
  \<^verbatim>\<open>getAllItemsDB\<close> itself.
\<close>

theorem absent_record_is_pushed_as_undefined:
  assumes "send (ScanCommand t) w = (Inr (ScanOutput Items), w1)"
    and "j < length Items"
    and "property (JObj (Items ! j)) (ascii ''ID'') = JNum (Fin k)"
    and "tables (other w1) t = Some tb"
    and "map_of tb k = None"
    and "faults (other w1) (length (sent (other w1)) + j) = None"
  shows "(\<exists>coursesList w2.
            getAllItemsDBmeanwhile other rt t w = (Returned coursesList, w2)
            \<and> JUndefined \<in> set coursesList
            \<and> length coursesList
                = length (filter (\<lambda>n. faults (other w1) n = None)
                            [length (sent (other w1))..<length (sent (other w1)) + length Items]))
         \<and> getAllItemsDBmeanwhile (\<lambda>w. w) rt t w = getAllItemsDB rt t w"
proof
  obtain ks where Items: "Items = map (\<lambda>k. [(ascii ''ID'', JNum (Fin k))]) ks"
    using scanned_items[OF assms(1)] by blast
  have j: "j < length ks" using assms(2) Items by simp
  then have "property (JObj (Items ! j)) (ascii ''ID'') = JNum (Fin (ks ! j))"
    by (simp add: Items)
  with assms(3) have k: "ks ! j = k" by simp
  have absent: "map_of tb (ks ! j) = None" using assms(5) k by simp
  let ?r = "fold (fetchCourse rt t) (map (\<lambda>k. [(ascii ''ID'', JNum (Fin k))]) ks) ([], other w1)"
  have run: "getAllItemsDBmeanwhile other rt t w = (Returned (fst ?r), snd ?r)"
    by (simp add: getAllItemsDBmeanwhile_def assms(1) Items split_def del: map_map)
  from fold_fetchCourse_absent[OF assms(4) j absent assms(6), of rt "[]"]
  have u: "JUndefined \<in> set (fst ?r)"
    and l: "length (fst ?r) = length (filter (\<lambda>n. faults (other w1) n = None)
                            [length (sent (other w1))..<length (sent (other w1)) + length Items])"
    by (simp_all add: Items)
  show "\<exists>coursesList w2.
            getAllItemsDBmeanwhile other rt t w = (Returned coursesList, w2)
            \<and> JUndefined \<in> set coursesList
            \<and> length coursesList
                = length (filter (\<lambda>n. faults (other w1) n = None)
                            [length (sent (other w1))..<length (sent (other w1)) + length Items])"
  proof (intro exI conjI)
    show "getAllItemsDBmeanwhile other rt t w = (Returned (fst ?r), snd ?r)" by (fact run)
    show "JUndefined \<in> set (fst ?r)" by (fact u)
    show "length (fst ?r) = length (filter (\<lambda>n. faults (other w1) n = None)
                            [length (sent (other w1))..<length (sent (other w1)) + length Items])"
      by (fact l)
  qed
  show "getAllItemsDBmeanwhile (\<lambda>w. w) rt t w = getAllItemsDB rt t w"
    by (rule getAllItemsDBmeanwhile_nothing)
qed

theorem absent_record_is_pushed_as_undefined_witness:
  "fst (getAllItemsDBmeanwhile removeLogic exampleRuntime courses (exampleWorld twoCourses []))
     = Returned [JObj algoItem, JUndefined]
   \<and> (\<exists>coursesList w2.
         getAllItemsDBmeanwhile removeLogic exampleRuntime courses (exampleWorld twoCourses [])
           = (Returned coursesList, w2)
         \<and> JUndefined \<in> set coursesList \<and> length coursesList = 2)
   \<and> getAllItemsDBmeanwhile (\<lambda>w. w) exampleRuntime courses (exampleWorld twoCourses [])
       = getAllItemsDB exampleRuntime courses (exampleWorld twoCourses [])"
proof -
  let ?w = "exampleWorld twoCourses []"
  let ?w1 = "?w\<lparr>sent := [ScanCommand courses]\<rparr>"
  let ?w' = "(exampleWorld [(1, algoItem)] [])
               \<lparr>sent := [ScanCommand courses, DeleteCommand courses (Fin 2)]\<rparr>"
  let ?Items = "[[(ascii ''ID'', JNum (Fin 1))], [(ascii ''ID'', JNum (Fin 2))]]"
  have tb: "tables ?w courses = Some twoCourses" by (simp add: exampleWorld_def)
  have ok: "faults ?w (length (sent ?w)) = None" by (simp add: exampleWorld_def)
  have 1: "send (ScanCommand courses) ?w = (Inr (ScanOutput ?Items), ?w1)"
    unfolding send_scan[OF tb ok] by (simp add: twoCourses_def exampleWorld_def)
  have 2: "1 < length ?Items" by simp
  have 3: "property (JObj (?Items ! 1)) (ascii ''ID'') = JNum (Fin 2)" by simp
  have 4: "tables (removeLogic ?w1) courses = Some [(1, algoItem)]"
    unfolding removeLogic_scanned by (simp add: exampleWorld_def)
  have 5: "map_of [(1 :: rat, algoItem)] 2 = None" by simp
  have 6: "faults (removeLogic ?w1) (length (sent (removeLogic ?w1)) + 1) = None"
    unfolding removeLogic_scanned by (simp add: exampleWorld_def)
  have tb': "tables ?w' courses = Some [(1, algoItem)]" by (simp add: exampleWorld_def)
  have none: "faults (exampleWorld [(1, algoItem)] []) n = None" for n
    by (simp add: exampleWorld_def)
  have len: "length (sent ?w') = 2" by simp
  have loop: "fst (fold (fetchCourse exampleRuntime courses) ?Items ([], ?w'))
                = [JObj algoItem, JUndefined]"
    using fold_fetchCourse[OF tb', of exampleRuntime "[1, 2]" "[]"]
    by (simp add: none len enumerate_eq_zip Item_def upt_rec)
  have run: "fst (getAllItemsDBmeanwhile removeLogic exampleRuntime courses ?w)
               = Returned [JObj algoItem, JUndefined]"
    using loop by (simp add: getAllItemsDBmeanwhile_def 1 removeLogic_scanned split_def)
  from absent_record_is_pushed_as_undefined
         [where other = removeLogic and rt = exampleRuntime, OF 1 2 3 4 5 6]
  obtain coursesList w2
    where a: "getAllItemsDBmeanwhile removeLogic exampleRuntime courses ?w = (Returned coursesList, w2)"
      and b: "JUndefined \<in> set coursesList"
      and c: "getAllItemsDBmeanwhile (\<lambda>w. w) exampleRuntime courses ?w
                = getAllItemsDB exampleRuntime courses ?w"
    by (elim exE conjE)
  from a run have "coursesList = [JObj algoItem, JUndefined]" by simp
  then have d: "length coursesList = 2" by simp
  show ?thesis
  proof (intro conjI exI)
    show "fst (getAllItemsDBmeanwhile removeLogic exampleRuntime courses ?w)
               = Returned [JObj algoItem, JUndefined]" by (fact run)
    show "getAllItemsDBmeanwhile removeLogic exampleRuntime courses ?w = (Returned coursesList, w2)"
      by (fact a)
    show "JUndefined \<in> set coursesList" by (fact b)
    show "length coursesList = 2" by (fact d)
    show "getAllItemsDBmeanwhile (\<lambda>w. w) exampleRuntime courses ?w
                = getAllItemsDB exampleRuntime courses ?w" by (fact c)
  qed
qed

section \<open>Adding a course\<close>

lemma putItemDB_Returned:
  assumes "putItemDB rt courseObject t w = (Returned response, w1)"
  shows "\<exists>c. putCommand rt courseObject t = Inr c \<and> send c w = (Inr response, w1)"
  using assms by (auto simp: putItemDB_def split: sum.splits prod.splits)

lemma putCommand_Inr:
  assumes "putCommand rt courseObject t = Inr c"
    and "ToNumber rt (property courseObject (ascii ''id'')) = Inr n"
    and "decodeURIComponent rt (property courseObject (ascii ''courseCoverArt'')) = Inr CoverArt"
    and "decodeURIComponent rt (property courseObject (ascii ''courseUrl'')) = Inr CourseUrl"
  shows "c = PutCommand t
               [(ascii ''ID'', JNum n),
                (ascii ''CourseName'', property courseObject (ascii ''courseName'')),
                (ascii ''CoverArt'', JStr CoverArt),
                (ascii ''CourseUrl'', JStr CourseUrl),
                (ascii ''Author'', property courseObject (ascii ''courseAuthor''))]"
  using assms by (auto simp: putCommand_def split: if_splits)

lemma putItemDB_stores:
  assumes "putItemDB rt courseObject t w = (Returned response, w1)"
    and "ToNumber rt (property courseObject (ascii ''id'')) = Inr (Fin k)"
    and "decodeURIComponent rt (property courseObject (ascii ''courseCoverArt'')) = Inr CoverArt"
    and "decodeURIComponent rt (property courseObject (ascii ''courseUrl'')) = Inr CourseUrl"
    and "i = [(ascii ''ID'', JNum (Fin k)),
              (ascii ''CourseName'', property courseObject (ascii ''courseName'')),
              (ascii ''CoverArt'', JStr CoverArt),
              (ascii ''CourseUrl'', JStr CourseUrl),
              (ascii ''Author'', property courseObject (ascii ''courseAuthor''))]"
  shows "\<exists>tb. tables w t = Some tb \<and> faults w (length (sent w)) = None
           \<and> response = PutOutput
           \<and> w1 = w\<lparr>sent := sent w @ [PutCommand t i],
                     tables := (tables w)(t := Some (AList.update k i tb))\<rparr>"
proof -
  obtain c where c: "putCommand rt courseObject t = Inr c" and s: "send c w = (Inr response, w1)"
    using putItemDB_Returned[OF assms(1)] by blast
  have c': "c = PutCommand t i"
    using putCommand_Inr[OF c assms(2,3,4)] assms(5) by simp
  have key: "commandKey (PutCommand t i) = Inr (Some k)"
    by (simp add: commandKey_def numericKey_def assms(5))
  from send_Inr[OF s] c' key show ?thesis
    by (auto simp: TableName_def execute_def)
qed

lemma record_is_listed:
  assumes "tables w t = Some tb" and "faults w (length (sent w)) = None"
    and "map_of tb k = Some i"
    and "\<forall>j < length tb. fst (tb ! j) = k \<longrightarrow> faults w (Suc (length (sent w)) + j) = None"
  shows "\<exists>coursesList w2. getAllItemsDB rt t w = (Returned coursesList, w2)
           \<and> JObj i \<in> set coursesList"
proof -
  let ?m = "Suc (length (sent w))"
  from assms(3) have "(k, i) \<in> set tb" by (rule map_of_SomeD)
  then obtain j where j: "j < length tb" "tb ! j = (k, i)"
    by (auto simp: in_set_conv_nth)
  then have ok: "faults w (?m + j) = None" using assms(4) by simp
  have "(?m + j, k) \<in> set (enumerate ?m (map fst tb))"
    using j by (auto simp: in_set_enumerate_eq)
  with ok have "(?m + j, k) \<in> set (filter (\<lambda>(n, k). faults w n = None)
                                      (enumerate ?m (map fst tb)))"
    by simp
  moreover have "Item (GetOutput (map_of tb k)) = JObj i"
    using assms(3) by (simp add: Item_def)
  ultimately have "JObj i \<in> set (map (\<lambda>(n, k). Item (GetOutput (map_of tb k)))
                        (filter (\<lambda>(n, k). faults w n = None) (enumerate ?m (map fst tb))))"
    by (force simp: image_iff)
  then show ?thesis
    using getAllItemsDB_scanned[OF assms(1,2), of rt] by blast
qed

lemma putItemDB_succeeds:
  assumes "\<not> nullish courseObject"
    and "ToNumber rt (property courseObject (ascii ''id'')) = Inr (Fin k)"
    and "decodeURIComponent rt (property courseObject (ascii ''courseCoverArt'')) = Inr CoverArt"
    and "decodeURIComponent rt (property courseObject (ascii ''courseUrl'')) = Inr CourseUrl"
    and "i = [(ascii ''ID'', JNum (Fin k)),
              (ascii ''CourseName'', property courseObject (ascii ''courseName'')),
              (ascii ''CoverArt'', JStr CoverArt),
              (ascii ''CourseUrl'', JStr CourseUrl),
              (ascii ''Author'', property courseObject (ascii ''courseAuthor''))]"
    and "tables w t = Some tb" and "faults w (length (sent w)) = None"
  shows "putItemDB rt courseObject t w =
           (Returned PutOutput,
            w\<lparr>sent := sent w @ [PutCommand t i],
              tables := (tables w)(t := Some (AList.update k i tb))\<rparr>)"
proof -
  have c: "putCommand rt courseObject t = Inr (PutCommand t i)"
    using assms(1-5) by (simp add: putCommand_def)
  have key: "commandKey (PutCommand t i) = Inr (Some k)"
    by (simp add: commandKey_def numericKey_def assms(5))
  have "tables w (TableName (PutCommand t i)) = Some tb"
    using assms(6) by (simp add: TableName_def)
  from send_succeeds[OF key assms(7) this]
  show ?thesis by (simp add: putItemDB_def c execute_def TableName_def)
qed

lemma algoQuery_fields:
  "\<not> nullish (algoQuery a)"
  "ToNumber exampleRuntime (property (algoQuery a) (ascii ''id'')) = Inr (Fin 1)"
  "decodeURIComponent exampleRuntime (property (algoQuery a) (ascii ''courseCoverArt''))
     = Inr (ascii ''/img/a.png'')"
  "decodeURIComponent exampleRuntime (property (algoQuery a) (ascii ''courseUrl''))
     = Inr (ascii ''http://x.test'')"
  "algoItem = [(ascii ''ID'', JNum (Fin 1)),
               (ascii ''CourseName'', property (algoQuery a) (ascii ''courseName'')),
               (ascii ''CoverArt'', JStr (ascii ''/img/a.png'')),
               (ascii ''CourseUrl'', JStr (ascii ''http://x.test'')),
               (ascii ''Author'', property (algoQuery a) (ascii ''courseAuthor''))]"
proof -
  show "\<not> nullish (algoQuery a)" by (simp add: nullish_def algoQuery_def)
  show "ToNumber exampleRuntime (property (algoQuery a) (ascii ''id'')) = Inr (Fin 1)"
    by (simp add: algoQuery_def ascii_def exampleRuntime_def)
  show "decodeURIComponent exampleRuntime (property (algoQuery a) (ascii ''courseCoverArt''))
     = Inr (ascii ''/img/a.png'')"
    by (simp add: algoQuery_def ascii_def decodeURIComponent_def Decode.simps
          ParseHexOctet_def hexDigit_def leadingOnes_def)
  show "decodeURIComponent exampleRuntime (property (algoQuery a) (ascii ''courseUrl''))
     = Inr (ascii ''http://x.test'')"
    by (simp add: algoQuery_def ascii_def decodeURIComponent_def Decode.simps
          ParseHexOctet_def hexDigit_def leadingOnes_def)
  show "algoItem = [(ascii ''ID'', JNum (Fin 1)),
               (ascii ''CourseName'', property (algoQuery a) (ascii ''courseName'')),
               (ascii ''CoverArt'', JStr (ascii ''/img/a.png'')),
               (ascii ''CourseUrl'', JStr (ascii ''http://x.test'')),
               (ascii ''Author'', property (algoQuery a) (ascii ''courseAuthor''))]"
    by (simp add: algoItem_def algoQuery_def ascii_def)
qed

lemma putItemDB_algo:
  assumes "0 \<notin> set failing"
  shows "putItemDB exampleRuntime (algoQuery a) courses (exampleWorld [] failing) =
           (Returned PutOutput, added failing)"
proof -
  let ?w = "exampleWorld [] failing"
  have tb: "tables ?w courses = Some []" by (simp add: exampleWorld_def)
  have ok: "faults ?w (length (sent ?w)) = None" using assms by (simp add: exampleWorld_def)
  have "?w\<lparr>sent := sent ?w @ [PutCommand courses algoItem],
            tables := (tables ?w)(courses := Some (AList.update 1 algoItem []))\<rparr> = added failing"
    by (simp add: exampleWorld_def added_def fun_eq_iff)
  with putItemDB_succeeds[OF algoQuery_fields tb ok, of a]
  show ?thesis by simp
qed

lemma putCommand_decodes:
  assumes "putCommand rt courseObject t = Inr c"
  shows "\<exists>CoverArt CourseUrl.
           decodeURIComponent rt (property courseObject (ascii ''courseCoverArt'')) = Inr CoverArt
           \<and> decodeURIComponent rt (property courseObject (ascii ''courseUrl'')) = Inr CourseUrl"
  using assms by (auto simp: putCommand_def split: if_splits sum.splits)

lemma algoQuery_present:
  "property (algoQuery a) (ascii ''id'') \<noteq> JUndefined"
  "property (algoQuery a) (ascii ''courseName'') \<noteq> JUndefined"
  "property (algoQuery a) (ascii ''courseCoverArt'') \<noteq> JUndefined"
  "property (algoQuery a) (ascii ''courseUrl'') \<noteq> JUndefined"
  "property (algoQuery a) (ascii ''courseAuthor'') \<noteq> JUndefined"
  by (simp_all add: algoQuery_def ascii_def)

text \<open>
  C1, as amended. Take a payload with all five fields present and an id that is a
  finite number \<open>k\<close>, and a put of it that succeeded. Then the two URL fields decode, and
  a listing whose scan does not fail, and whose fetch of the key \<open>k\<close> does not fail,
  returns a list that contains the record of the five fields: the number of the id, the
  name and the author as submitted, and the two decoded values.
\<close>

theorem added_course_is_listed:
  assumes "property courseObject (ascii ''id'') \<noteq> JUndefined"
    and "property courseObject (ascii ''courseName'') \<noteq> JUndefined"
    and "property courseObject (ascii ''courseCoverArt'') \<noteq> JUndefined"
    and "property courseObject (ascii ''courseUrl'') \<noteq> JUndefined"
    and "property courseObject (ascii ''courseAuthor'') \<noteq> JUndefined"
    and "ToNumber rt (property courseObject (ascii ''id'')) = Inr (Fin k)"
    and "putItemDB rt courseObject t w = (Returned response, w1)"
    and "tables w1 t = Some tb1"
    and "faults w1 (length (sent w1)) = None"
    and "\<forall>j < length tb1. fst (tb1 ! j) = k \<longrightarrow> faults w1 (Suc (length (sent w1)) + j) = None"
  shows "\<exists>CoverArt CourseUrl coursesList w2.
           decodeURIComponent rt (property courseObject (ascii ''courseCoverArt'')) = Inr CoverArt
           \<and> decodeURIComponent rt (property courseObject (ascii ''courseUrl'')) = Inr CourseUrl
           \<and> getAllItemsDB rt t w1 = (Returned coursesList, w2)
           \<and> JObj [(ascii ''ID'', JNum (Fin k)),
                    (ascii ''CourseName'', property courseObject (ascii ''courseName'')),
                    (ascii ''CoverArt'', JStr CoverArt),
                    (ascii ''CourseUrl'', JStr CourseUrl),
                    (ascii ''Author'', property courseObject (ascii ''courseAuthor''))]
               \<in> set coursesList"
proof -
  obtain c where "putCommand rt courseObject t = Inr c"
    using putItemDB_Returned[OF assms(7)] by blast
  then obtain CoverArt CourseUrl
    where a: "decodeURIComponent rt (property courseObject (ascii ''courseCoverArt'')) = Inr CoverArt"
      and u: "decodeURIComponent rt (property courseObject (ascii ''courseUrl'')) = Inr CourseUrl"
    using putCommand_decodes by blast
  let ?i = "[(ascii ''ID'', JNum (Fin k)),
             (ascii ''CourseName'', property courseObject (ascii ''courseName'')),
             (ascii ''CoverArt'', JStr CoverArt),
             (ascii ''CourseUrl'', JStr CourseUrl),
             (ascii ''Author'', property courseObject (ascii ''courseAuthor''))]"
  obtain tb where w1: "w1 = w\<lparr>sent := sent w @ [PutCommand t ?i],
                               tables := (tables w)(t := Some (AList.update k ?i tb))\<rparr>"
    using putItemDB_stores[OF assms(7,6) a u refl] by blast
  with assms(8) have "tb1 = AList.update k ?i tb" by simp
  then have "map_of tb1 k = Some ?i" by (simp add: update_conv')
  with assms(8,9) have "\<exists>coursesList w2. getAllItemsDB rt t w1 = (Returned coursesList, w2)
           \<and> JObj ?i \<in> set coursesList"
    using assms(10) by (rule record_is_listed)
  then obtain coursesList w2 where l: "getAllItemsDB rt t w1 = (Returned coursesList, w2)"
    and m: "JObj ?i \<in> set coursesList"
    by (elim exE conjE)
  show ?thesis
  proof (intro exI conjI)
    show "decodeURIComponent rt (property courseObject (ascii ''courseCoverArt'')) = Inr CoverArt"
      by (fact a)
    show "decodeURIComponent rt (property courseObject (ascii ''courseUrl'')) = Inr CourseUrl"
      by (fact u)
    show "getAllItemsDB rt t w1 = (Returned coursesList, w2)" by (fact l)
    show "JObj ?i \<in> set coursesList" by (fact m)
  qed
qed

theorem added_course_is_listed_witness:
  "\<exists>coursesList w2.
     getAllItemsDB exampleRuntime courses (added []) = (Returned coursesList, w2)
     \<and> JObj algoItem \<in> set coursesList"
proof -
  have put: "putItemDB exampleRuntime (algoQuery ''addCourse'') courses (exampleWorld [] []) =
           (Returned PutOutput, added [])"
    by (rule putItemDB_algo) simp
  have tb: "tables (added []) courses = Some [(1, algoItem)]"
    by (simp add: added_def exampleWorld_def)
  have scan: "faults (added []) (length (sent (added []))) = None"
    by (simp add: added_def exampleWorld_def)
  have fetch: "\<forall>j < length [(1 :: rat, algoItem)]. fst ([(1 :: rat, algoItem)] ! j) = 1 \<longrightarrow>
                 faults (added []) (Suc (length (sent (added []))) + j) = None"
    by (simp add: added_def exampleWorld_def)
  from added_course_is_listed[OF algoQuery_present algoQuery_fields(2) put tb scan fetch]
  obtain CoverArt CourseUrl coursesList w2
    where a: "decodeURIComponent exampleRuntime
                (property (algoQuery ''addCourse'') (ascii ''courseCoverArt'')) = Inr CoverArt"
      and u: "decodeURIComponent exampleRuntime
                (property (algoQuery ''addCourse'') (ascii ''courseUrl'')) = Inr CourseUrl"
      and l: "getAllItemsDB exampleRuntime courses (added []) = (Returned coursesList, w2)"
      and m: "JObj [(ascii ''ID'', JNum (Fin 1)),
                    (ascii ''CourseName'', property (algoQuery ''addCourse'') (ascii ''courseName'')),
                    (ascii ''CoverArt'', JStr CoverArt),
                    (ascii ''CourseUrl'', JStr CourseUrl),
                    (ascii ''Author'', property (algoQuery ''addCourse'') (ascii ''courseAuthor''))]
               \<in> set coursesList"
    by (elim exE conjE)
  from a have "CoverArt = ascii ''/img/a.png''" unfolding algoQuery_fields(3) by simp
  moreover from u have "CourseUrl = ascii ''http://x.test''" unfolding algoQuery_fields(4) by simp
  ultimately have "JObj algoItem \<in> set coursesList"
    using m algoQuery_fields(5)[of "''addCourse''"] by simp
  with l show ?thesis by (intro exI conjI)
qed

text \<open>
  C1, as stated, fails: the course of the scenario is added, the fetch of its record
  fails during the listing, and the listing returns the empty list as a success.
\<close>

theorem added_course_counterexample:
  "putItemDB exampleRuntime (algoQuery ''addCourse'') courses (exampleWorld [] [2]) =
     (Returned PutOutput, added [2])
   \<and> getAllItemsDB exampleRuntime courses (added [2]) =
       (Returned [],
        (added [2])\<lparr>sent := [PutCommand courses algoItem, ScanCommand courses,
                                GetCommand courses (Fin 1)]\<rparr>)"
proof -
  have put: "putItemDB exampleRuntime (algoQuery ''addCourse'') courses (exampleWorld [] [2]) =
           (Returned PutOutput, added [2])"
    by (rule putItemDB_algo) simp
  have tb: "tables (added [2]) courses = Some [(1, algoItem)]"
    by (simp add: added_def exampleWorld_def)
  have scan: "faults (added [2]) (length (sent (added [2]))) = None"
    by (simp add: added_def exampleWorld_def)
  have "getAllItemsDB exampleRuntime courses (added [2]) =
       (Returned [],
        (added [2])\<lparr>sent := [PutCommand courses algoItem, ScanCommand courses,
                                GetCommand courses (Fin 1)]\<rparr>)"
    unfolding getAllItemsDB_scanned[OF tb scan]
    by (simp add: added_def exampleWorld_def enumerate_eq_zip upt_rec)
  with put show ?thesis by simp
qed

section \<open>Editing a course\<close>

lemma updateItemDB_Returned:
  assumes "updateItemDB rt courseObject t w = (Returned response, w1)"
  shows "\<exists>c. updateCommand rt courseObject t = Inr c \<and> send c w = (Inr response, w1)"
  using assms by (auto simp: updateItemDB_def split: sum.splits prod.splits)

lemma updateCommand_Inr:
  assumes "updateCommand rt courseObject t = Inr c"
    and "ToNumber rt (property courseObject (ascii ''id'')) = Inr n"
    and "decodeURIComponent rt (property courseObject (ascii ''courseCoverArt'')) = Inr coverart"
    and "decodeURIComponent rt (property courseObject (ascii ''courseUrl'')) = Inr url"
  shows "c = UpdateCommand t n
               [(ascii '':name'', property courseObject (ascii ''courseName'')),
                (ascii '':coverart'', JStr coverart),
                (ascii '':url'', JStr url),
                (ascii '':author'', property courseObject (ascii ''courseAuthor''))]"
  using assms by (auto simp: updateCommand_def split: if_splits)

lemma placeholders:
  "property (JObj [(ascii '':name'', name), (ascii '':coverart'', coverart),
                   (ascii '':url'', url), (ascii '':author'', author)]) (ascii '':name'') = name"
  "property (JObj [(ascii '':name'', name), (ascii '':coverart'', coverart),
                   (ascii '':url'', url), (ascii '':author'', author)]) (ascii '':coverart'') = coverart"
  "property (JObj [(ascii '':name'', name), (ascii '':coverart'', coverart),
                   (ascii '':url'', url), (ascii '':author'', author)]) (ascii '':url'') = url"
  "property (JObj [(ascii '':name'', name), (ascii '':coverart'', coverart),
                   (ascii '':url'', url), (ascii '':author'', author)]) (ascii '':author'') = author"
  by (simp_all add: ascii_def)

lemma map_of_setAttributes:
  "map_of (setAttributes [(ascii '':name'', name), (ascii '':coverart'', coverart),
                          (ascii '':url'', url), (ascii '':author'', author)] i) =
     (map_of i)(ascii ''CourseName'' \<mapsto> name, ascii ''CourseUrl'' \<mapsto> url,
                ascii ''CoverArt'' \<mapsto> coverart, ascii ''Author'' \<mapsto> author)"
  unfolding setAttributes_def placeholders by (simp add: update_conv')

lemma attribute_names:
  "ascii ''ID'' \<noteq> ascii ''CourseName''" "ascii ''ID'' \<noteq> ascii ''CourseUrl''"
  "ascii ''ID'' \<noteq> ascii ''CoverArt''" "ascii ''ID'' \<noteq> ascii ''Author''"
  "ascii ''CourseName'' \<noteq> ascii ''CourseUrl''" "ascii ''CourseName'' \<noteq> ascii ''CoverArt''"
  "ascii ''CourseName'' \<noteq> ascii ''Author''" "ascii ''CourseUrl'' \<noteq> ascii ''CoverArt''"
  "ascii ''CourseUrl'' \<noteq> ascii ''Author''" "ascii ''CoverArt'' \<noteq> ascii ''Author''"
  by (simp_all add: ascii_def)

lemma updateItemDB_changes:
  assumes "updateItemDB rt courseObject t w = (Returned response, w1)"
    and "ToNumber rt (property courseObject (ascii ''id'')) = Inr (Fin k)"
    and "decodeURIComponent rt (property courseObject (ascii ''courseCoverArt'')) = Inr coverart"
    and "decodeURIComponent rt (property courseObject (ascii ''courseUrl'')) = Inr url"
    and "values = [(ascii '':name'', property courseObject (ascii ''courseName'')),
                   (ascii '':coverart'', JStr coverart),
                   (ascii '':url'', JStr url),
                   (ascii '':author'', property courseObject (ascii ''courseAuthor''))]"
  shows "\<exists>tb. tables w t = Some tb \<and> faults w (length (sent w)) = None
           \<and> response = UpdateOutput (setAttributes values
                 (case map_of tb k of None \<Rightarrow> [(ascii ''ID'', JNum (Fin k))] | Some old \<Rightarrow> old))
           \<and> w1 = w\<lparr>sent := sent w @ [UpdateCommand t (Fin k) values],
                     tables := (tables w)(t := Some (AList.update k (setAttributes values
                 (case map_of tb k of None \<Rightarrow> [(ascii ''ID'', JNum (Fin k))] | Some old \<Rightarrow> old)) tb))\<rparr>"
proof -
  obtain c where c: "updateCommand rt courseObject t = Inr c"
    and s: "send c w = (Inr response, w1)"
    using updateItemDB_Returned[OF assms(1)] by blast
  have c': "c = UpdateCommand t (Fin k) values"
    using updateCommand_Inr[OF c assms(2,3,4)] assms(5) by simp
  have key: "commandKey (UpdateCommand t (Fin k) values) = Inr (Some k)"
    by (simp add: commandKey_def numericKey_def)
  obtain key' tb where k': "commandKey c = Inr key'"
    and ok: "faults w (length (sent w)) = None"
    and tb: "tables w (TableName c) = Some tb"
    and out: "response = fst (execute c key' tb)"
    and w1: "w1 = w\<lparr>sent := sent w @ [c],
                     tables := (tables w)(TableName c := Some (snd (execute c key' tb)))\<rparr>"
    using send_Inr[OF s] by blast
  have key': "key' = Some k" using k' key c' by simp
  have name: "TableName c = t" by (simp add: c' TableName_def)
  have ex: "execute c key' tb =
              (UpdateOutput (setAttributes values
                 (case map_of tb k of None \<Rightarrow> [(ascii ''ID'', JNum (Fin k))] | Some old \<Rightarrow> old)),
               AList.update k (setAttributes values
                 (case map_of tb k of None \<Rightarrow> [(ascii ''ID'', JNum (Fin k))] | Some old \<Rightarrow> old)) tb)"
    by (simp add: c' key' execute_def Let_def)
  have tb': "tables w t = Some tb" using tb name by simp
  have out': "response = UpdateOutput (setAttributes values
                 (case map_of tb k of None \<Rightarrow> [(ascii ''ID'', JNum (Fin k))] | Some old \<Rightarrow> old))"
    using out by (simp add: ex)
  have w1': "w1 = w\<lparr>sent := sent w @ [UpdateCommand t (Fin k) values],
                     tables := (tables w)(t := Some (AList.update k (setAttributes values
                 (case map_of tb k of None \<Rightarrow> [(ascii ''ID'', JNum (Fin k))] | Some old \<Rightarrow> old)) tb))\<rparr>"
    using w1 by (simp add: name ex) (simp add: c')
  from ok tb' out' w1' show ?thesis by blast
qed

lemma updateItemDB_succeeds:
  assumes "\<not> nullish courseObject"
    and "ToNumber rt (property courseObject (ascii ''id'')) = Inr (Fin k)"
    and "decodeURIComponent rt (property courseObject (ascii ''courseCoverArt'')) = Inr coverart"
    and "decodeURIComponent rt (property courseObject (ascii ''courseUrl'')) = Inr url"
    and "values = [(ascii '':name'', property courseObject (ascii ''courseName'')),
                   (ascii '':coverart'', JStr coverart),
                   (ascii '':url'', JStr url),
                   (ascii '':author'', property courseObject (ascii ''courseAuthor''))]"
    and "tables w t = Some tb" and "faults w (length (sent w)) = None"
    and "new = setAttributes values
                 (case map_of tb k of None \<Rightarrow> [(ascii ''ID'', JNum (Fin k))] | Some old \<Rightarrow> old)"
  shows "updateItemDB rt courseObject t w =
           (Returned (UpdateOutput new),
            w\<lparr>sent := sent w @ [UpdateCommand t (Fin k) values],
              tables := (tables w)(t := Some (AList.update k new tb))\<rparr>)"
proof -
  have c: "updateCommand rt courseObject t = Inr (UpdateCommand t (Fin k) values)"
    using assms(1-5) by (simp add: updateCommand_def)
  have key: "commandKey (UpdateCommand t (Fin k) values) = Inr (Some k)"
    by (simp add: commandKey_def numericKey_def)
  have "tables w (TableName (UpdateCommand t (Fin k) values)) = Some tb"
    using assms(6) by (simp add: TableName_def)
  from send_succeeds[OF key assms(7) this]
  show ?thesis by (simp add: updateItemDB_def c execute_def TableName_def Let_def assms(8))
qed

lemma algoEdit_fields:
  "\<not> nullish algoEdit"
  "ToNumber exampleRuntime (property algoEdit (ascii ''id'')) = Inr (Fin 1)"
  "decodeURIComponent exampleRuntime (property algoEdit (ascii ''courseCoverArt''))
     = Inr (ascii ''/img/b.png'')"
  "decodeURIComponent exampleRuntime (property algoEdit (ascii ''courseUrl''))
     = Inr (ascii ''http://x.test/2'')"
proof -
  show "\<not> nullish algoEdit" by (simp add: nullish_def algoEdit_def)
  show "ToNumber exampleRuntime (property algoEdit (ascii ''id'')) = Inr (Fin 1)"
    by (simp add: algoEdit_def ascii_def exampleRuntime_def)
  show "decodeURIComponent exampleRuntime (property algoEdit (ascii ''courseCoverArt''))
     = Inr (ascii ''/img/b.png'')"
    by (simp add: algoEdit_def ascii_def decodeURIComponent_def Decode.simps
          ParseHexOctet_def hexDigit_def leadingOnes_def)
  show "decodeURIComponent exampleRuntime (property algoEdit (ascii ''courseUrl''))
     = Inr (ascii ''http://x.test/2'')"
    by (simp add: algoEdit_def ascii_def decodeURIComponent_def Decode.simps
          ParseHexOctet_def hexDigit_def leadingOnes_def)
qed

lemma updateItemDB_algoEdit:
  "updateItemDB exampleRuntime algoEdit courses (exampleWorld [(1, algoItem)] []) =
     (Returned (UpdateOutput editedItem), edited)"
proof -
  let ?w = "exampleWorld [(1, algoItem)] []"
  let ?vals = "[(ascii '':name'', property algoEdit (ascii ''courseName'')),
                  (ascii '':coverart'', JStr (ascii ''/img/b.png'')),
                  (ascii '':url'', JStr (ascii ''http://x.test/2'')),
                  (ascii '':author'', property algoEdit (ascii ''courseAuthor''))]"
  have tb: "tables ?w courses = Some [(1, algoItem)]" by (simp add: exampleWorld_def)
  have ok: "faults ?w (length (sent ?w)) = None" by (simp add: exampleWorld_def)
  have new: "editedItem = setAttributes ?vals
                 (case map_of [(1 :: rat, algoItem)] 1 of
                    None \<Rightarrow> [(ascii ''ID'', JNum (Fin 1))] | Some old \<Rightarrow> old)"
    unfolding setAttributes_def placeholders
    by (simp add: editedItem_def algoItem_def algoEdit_def ascii_def)
  have vs: "?vals = editValues"
    by (simp add: editValues_def algoEdit_def ascii_def)
  have "?w\<lparr>sent := sent ?w @ [UpdateCommand courses (Fin 1) ?vals],
            tables := (tables ?w)(courses := Some (AList.update 1 editedItem [(1, algoItem)]))\<rparr>
          = edited"
    unfolding vs by (simp add: exampleWorld_def edited_def fun_eq_iff)
  with updateItemDB_succeeds[OF algoEdit_fields refl tb ok new]
  show ?thesis by simp
qed

lemma brokenEdit_fields:
  "\<not> nullish brokenEdit"
  "ToNumber exampleRuntime (property brokenEdit (ascii ''id'')) = Inr (Fin 1)"
  "decodeURIComponent exampleRuntime (property brokenEdit (ascii ''courseCoverArt''))
     = Inr (ascii ''/img/b.png'')"
  "decodeURIComponent exampleRuntime (property brokenEdit (ascii ''courseUrl'')) = Inl URIError"
proof -
  show "\<not> nullish brokenEdit" by (simp add: nullish_def brokenEdit_def)
  show "ToNumber exampleRuntime (property brokenEdit (ascii ''id'')) = Inr (Fin 1)"
    by (simp add: brokenEdit_def ascii_def exampleRuntime_def)
  show "decodeURIComponent exampleRuntime (property brokenEdit (ascii ''courseCoverArt''))
     = Inr (ascii ''/img/b.png'')"
    by (simp add: brokenEdit_def ascii_def decodeURIComponent_def Decode.simps
          ParseHexOctet_def hexDigit_def leadingOnes_def)
  show "decodeURIComponent exampleRuntime (property brokenEdit (ascii ''courseUrl'')) = Inl URIError"
    by (simp add: brokenEdit_def ascii_def decodeURIComponent_def Decode.simps
          ParseHexOctet_def hexDigit_def leadingOnes_def)
qed

text \<open>
  C5, as amended. Let the table have a record \<open>old\<close> under the key \<open>k\<close>, let the id of the
  payload be the number \<open>k\<close>, let its two URL fields decode to \<open>coverart\<close> and \<open>url\<close>, and
  let the update succeed. Then the record under \<open>k\<close> is \<open>new\<close>: the four attributes
  \<^verbatim>\<open>CourseName\<close>, \<^verbatim>\<open>CourseUrl\<close>, \<^verbatim>\<open>CoverArt\<close>, \<^verbatim>\<open>Author\<close> have the values of the payload
  (the two URL fields decoded), every other attribute is the one of \<open>old\<close>, \<^verbatim>\<open>ID\<close> among
  them; no other record and no other table changes; the update answers with \<open>new\<close>, and so
  does a get of \<open>k\<close> that does not fail.
\<close>

theorem edited_course_is_updated:
  assumes "tables w t = Some tb" and "map_of tb k = Some old"
    and "ToNumber rt (property courseObject (ascii ''id'')) = Inr (Fin k)"
    and "decodeURIComponent rt (property courseObject (ascii ''courseCoverArt'')) = Inr coverart"
    and "decodeURIComponent rt (property courseObject (ascii ''courseUrl'')) = Inr url"
    and "updateItemDB rt courseObject t w = (Returned response, w1)"
  shows "\<exists>new. response = UpdateOutput new
           \<and> tables w1 = (tables w)(t \<mapsto> AList.update k new tb)
           \<and> map_of new =
               (map_of old)(ascii ''CourseName'' \<mapsto> property courseObject (ascii ''courseName''),
                            ascii ''CourseUrl'' \<mapsto> JStr url,
                            ascii ''CoverArt'' \<mapsto> JStr coverart,
                            ascii ''Author'' \<mapsto> property courseObject (ascii ''courseAuthor''))
           \<and> map_of new (ascii ''ID'') = map_of old (ascii ''ID'')
           \<and> (faults w1 (length (sent w1)) = None \<longrightarrow>
                fst (getItemDB rt (JNum (Fin k)) t w1) = Some (GetOutput (Some new)))"
proof -
  let ?vals = "[(ascii '':name'', property courseObject (ascii ''courseName'')),
                  (ascii '':coverart'', JStr coverart),
                  (ascii '':url'', JStr url),
                  (ascii '':author'', property courseObject (ascii ''courseAuthor''))]"
  let ?new = "setAttributes ?vals old"
  from updateItemDB_changes[OF assms(6,3,4,5) refl] assms(1,2)
  have response: "response = UpdateOutput ?new"
    and w1: "w1 = w\<lparr>sent := sent w @ [UpdateCommand t (Fin k) ?vals],
                     tables := (tables w)(t := Some (AList.update k ?new tb))\<rparr>"
    by auto
  have tables: "tables w1 = (tables w)(t \<mapsto> AList.update k ?new tb)"
    using w1 by simp
  have fields: "map_of ?new =
               (map_of old)(ascii ''CourseName'' \<mapsto> property courseObject (ascii ''courseName''),
                            ascii ''CourseUrl'' \<mapsto> JStr url,
                            ascii ''CoverArt'' \<mapsto> JStr coverart,
                            ascii ''Author'' \<mapsto> property courseObject (ascii ''courseAuthor''))"
    by (rule map_of_setAttributes)
  have key: "map_of ?new (ascii ''ID'') = map_of old (ascii ''ID'')"
    unfolding fields using attribute_names(1-4) by simp
  have tb1: "tables w1 t = Some (AList.update k ?new tb)"
    using tables by simp
  have fetch: "faults w1 (length (sent w1)) = None \<longrightarrow>
                fst (getItemDB rt (JNum (Fin k)) t w1) = Some (GetOutput (Some ?new))"
    by (simp add: getItemDB_key[OF tb1] update_conv')
  show ?thesis
  proof (intro exI conjI)
    show "response = UpdateOutput ?new" by (fact response)
    show "tables w1 = (tables w)(t \<mapsto> AList.update k ?new tb)" by (fact tables)
    show "map_of ?new =
               (map_of old)(ascii ''CourseName'' \<mapsto> property courseObject (ascii ''courseName''),
                            ascii ''CourseUrl'' \<mapsto> JStr url,
                            ascii ''CoverArt'' \<mapsto> JStr coverart,
                            ascii ''Author'' \<mapsto> property courseObject (ascii ''courseAuthor''))"
      by (fact fields)
    show "map_of ?new (ascii ''ID'') = map_of old (ascii ''ID'')" by (fact key)
    show "faults w1 (length (sent w1)) = None \<longrightarrow>
                fst (getItemDB rt (JNum (Fin k)) t w1) = Some (GetOutput (Some ?new))"
      by (fact fetch)
  qed
qed

theorem edited_course_is_updated_witness:
  "updateItemDB exampleRuntime algoEdit courses (exampleWorld [(1, algoItem)] []) =
     (Returned (UpdateOutput editedItem), edited)
   \<and> tables edited = (tables (exampleWorld [(1, algoItem)] []))
                         (courses \<mapsto> AList.update 1 editedItem [(1, algoItem)])
   \<and> map_of editedItem =
       (map_of algoItem)(ascii ''CourseName'' \<mapsto> JStr (ascii ''Algo 2''),
                         ascii ''CourseUrl'' \<mapsto> JStr (ascii ''http://x.test/2''),
                         ascii ''CoverArt'' \<mapsto> JStr (ascii ''/img/b.png''),
                         ascii ''Author'' \<mapsto> JStr (ascii ''Ada L''))
   \<and> map_of editedItem (ascii ''ID'') = map_of algoItem (ascii ''ID'')
   \<and> fst (getItemDB exampleRuntime (JNum (Fin 1)) courses edited)
       = Some (GetOutput (Some editedItem))"
proof -
  let ?w = "exampleWorld [(1, algoItem)] []"
  have tb: "tables ?w courses = Some [(1, algoItem)]" by (simp add: exampleWorld_def)
  have old: "map_of [(1 :: rat, algoItem)] 1 = Some algoItem" by simp
  have ok: "faults edited (length (sent edited)) = None"
    by (simp add: edited_def exampleWorld_def)
  have name: "property algoEdit (ascii ''courseName'') = JStr (ascii ''Algo 2'')"
    by (simp add: algoEdit_def ascii_def)
  have author: "property algoEdit (ascii ''courseAuthor'') = JStr (ascii ''Ada L'')"
    by (simp add: algoEdit_def ascii_def)
  have "\<exists>new. UpdateOutput editedItem = UpdateOutput new
           \<and> tables edited = (tables ?w)(courses \<mapsto> AList.update 1 new [(1, algoItem)])
           \<and> map_of new =
               (map_of algoItem)(ascii ''CourseName'' \<mapsto> property algoEdit (ascii ''courseName''),
                            ascii ''CourseUrl'' \<mapsto> JStr (ascii ''http://x.test/2''),
                            ascii ''CoverArt'' \<mapsto> JStr (ascii ''/img/b.png''),
                            ascii ''Author'' \<mapsto> property algoEdit (ascii ''courseAuthor''))
           \<and> map_of new (ascii ''ID'') = map_of algoItem (ascii ''ID'')
           \<and> (faults edited (length (sent edited)) = None \<longrightarrow>
                fst (getItemDB exampleRuntime (JNum (Fin 1)) courses edited)
                  = Some (GetOutput (Some new)))"
    by (rule edited_course_is_updated[OF tb old algoEdit_fields(2,3,4) updateItemDB_algoEdit])
  then show ?thesis
  proof (elim exE conjE)
    fix new
    assume new: "UpdateOutput editedItem = UpdateOutput new"
      and t: "tables edited = (tables ?w)(courses \<mapsto> AList.update 1 new [(1, algoItem)])"
      and m: "map_of new =
               (map_of algoItem)(ascii ''CourseName'' \<mapsto> property algoEdit (ascii ''courseName''),
                            ascii ''CourseUrl'' \<mapsto> JStr (ascii ''http://x.test/2''),
                            ascii ''CoverArt'' \<mapsto> JStr (ascii ''/img/b.png''),
                            ascii ''Author'' \<mapsto> property algoEdit (ascii ''courseAuthor''))"
      and i: "map_of new (ascii ''ID'') = map_of algoItem (ascii ''ID'')"
      and g: "faults edited (length (sent edited)) = None \<longrightarrow>
                fst (getItemDB exampleRuntime (JNum (Fin 1)) courses edited)
                  = Some (GetOutput (Some new))"
    from new have eq: "new = editedItem" by simp
    from g ok have g': "fst (getItemDB exampleRuntime (JNum (Fin 1)) courses edited)
                  = Some (GetOutput (Some new))"
      by (rule mp)
    show ?thesis
      using updateItemDB_algoEdit t m i g' unfolding eq name author
      by (intro conjI)
  qed
qed

text \<open>
  C5, as stated, fails: the \<^verbatim>\<open>courseUrl\<close> of this edit ends in a lone percent sign, the
  decoder throws, the function returns the error object without a call of the store, and
  a get of the id returns the record as it was.
\<close>

theorem edited_course_counterexample:
  "updateItemDB exampleRuntime brokenEdit courses (exampleWorld [(1, algoItem)] []) =
     (ErrorObject (ascii ''URI malformed''), exampleWorld [(1, algoItem)] [])
   \<and> fst (getItemDB exampleRuntime (JNum (Fin 1)) courses (exampleWorld [(1, algoItem)] []))
       = Some (GetOutput (Some algoItem))"
proof -
  let ?w = "exampleWorld [(1, algoItem)] []"
  have "updateCommand exampleRuntime brokenEdit courses = Inl URIError"
    using brokenEdit_fields by (simp add: updateCommand_def)
  then have a: "updateItemDB exampleRuntime brokenEdit courses ?w =
                  (ErrorObject (ascii ''URI malformed''), ?w)"
    by (simp add: updateItemDB_def)
  have tb: "tables ?w courses = Some [(1, algoItem)]" by (simp add: exampleWorld_def)
  have b: "fst (getItemDB exampleRuntime (JNum (Fin 1)) courses ?w)
             = Some (GetOutput (Some algoItem))"
    unfolding getItemDB_key[OF tb] by (simp add: exampleWorld_def)
  from a b show ?thesis by simp
qed

section \<open>The stored URL fields\<close>

lemma stored_after_update:
  "stored (w\<lparr>sent := s, tables := (tables w)(t := Some (AList.update k i tb))\<rparr>) t k name
     = property (JObj i) name"
  by (simp add: stored_def update_conv')

text \<open>
  C6, as amended. Whenever a put or an update succeeds, the record under the key of the
  payload has, as \<^verbatim>\<open>CoverArt\<close> and \<^verbatim>\<open>CourseUrl\<close>, the values that \<^verbatim>\<open>decodeURIComponent\<close>
  gives for the submitted \<^verbatim>\<open>courseCoverArt\<close> and \<^verbatim>\<open>courseUrl\<close>: the fields are decoded
  once.
\<close>

theorem stored_urls_are_decoded:
  assumes "ToNumber rt (property courseObject (ascii ''id'')) = Inr (Fin k)"
    and "decodeURIComponent rt (property courseObject (ascii ''courseCoverArt'')) = Inr CoverArt"
    and "decodeURIComponent rt (property courseObject (ascii ''courseUrl'')) = Inr CourseUrl"
  shows "(putItemDB rt courseObject t w = (Returned response, w1) \<longrightarrow>
            stored w1 t k (ascii ''CoverArt'') = JStr CoverArt
            \<and> stored w1 t k (ascii ''CourseUrl'') = JStr CourseUrl)
         \<and> (updateItemDB rt courseObject t w = (Returned response, w1) \<longrightarrow>
            stored w1 t k (ascii ''CoverArt'') = JStr CoverArt
            \<and> stored w1 t k (ascii ''CourseUrl'') = JStr CourseUrl)"
proof (intro conjI impI)
  let ?i = "[(ascii ''ID'', JNum (Fin k)),
             (ascii ''CourseName'', property courseObject (ascii ''courseName'')),
             (ascii ''CoverArt'', JStr CoverArt),
             (ascii ''CourseUrl'', JStr CourseUrl),
             (ascii ''Author'', property courseObject (ascii ''courseAuthor''))]"
  assume "putItemDB rt courseObject t w = (Returned response, w1)"
  from putItemDB_stores[OF this assms refl]
  obtain tb where w1: "w1 = w\<lparr>sent := sent w @ [PutCommand t ?i],
                               tables := (tables w)(t := Some (AList.update k ?i tb))\<rparr>"
    by blast
  show "stored w1 t k (ascii ''CoverArt'') = JStr CoverArt"
    unfolding w1 stored_after_update using attribute_names by simp
  show "stored w1 t k (ascii ''CourseUrl'') = JStr CourseUrl"
    unfolding w1 stored_after_update using attribute_names by simp
next
  let ?vals = "[(ascii '':name'', property courseObject (ascii ''courseName'')),
                  (ascii '':coverart'', JStr CoverArt),
                  (ascii '':url'', JStr CourseUrl),
                  (ascii '':author'', property courseObject (ascii ''courseAuthor''))]"
  assume "updateItemDB rt courseObject t w = (Returned response, w1)"
  from updateItemDB_changes[OF this assms refl]
  obtain tb where w1: "w1 = w\<lparr>sent := sent w @ [UpdateCommand t (Fin k) ?vals],
       tables := (tables w)(t := Some (AList.update k (setAttributes ?vals
         (case map_of tb k of None \<Rightarrow> [(ascii ''ID'', JNum (Fin k))] | Some old \<Rightarrow> old)) tb))\<rparr>"
    by blast
  have attr: "property (JObj (setAttributes ?vals i)) name =
                (case ((map_of i)(ascii ''CourseName'' \<mapsto> property courseObject (ascii ''courseName''),
                            ascii ''CourseUrl'' \<mapsto> JStr CourseUrl,
                            ascii ''CoverArt'' \<mapsto> JStr CoverArt,
                            ascii ''Author'' \<mapsto> property courseObject (ascii ''courseAuthor''))) name
                 of None \<Rightarrow> JUndefined | Some v \<Rightarrow> v)" for i name
    by (simp add: map_of_setAttributes)
  show "stored w1 t k (ascii ''CoverArt'') = JStr CoverArt"
    unfolding w1 stored_after_update attr using attribute_names by simp
  show "stored w1 t k (ascii ''CourseUrl'') = JStr CourseUrl"
    unfolding w1 stored_after_update attr using attribute_names by simp
qed

theorem stored_urls_are_decoded_witness:
  "stored (added []) courses 1 (ascii ''CoverArt'') = JStr (ascii ''/img/a.png'')
   \<and> stored (added []) courses 1 (ascii ''CourseUrl'') = JStr (ascii ''http://x.test'')
   \<and> stored edited courses 1 (ascii ''CoverArt'') = JStr (ascii ''/img/b.png'')
   \<and> stored edited courses 1 (ascii ''CourseUrl'') = JStr (ascii ''http://x.test/2'')"
proof -
  have put: "putItemDB exampleRuntime (algoQuery ''addCourse'') courses (exampleWorld [] []) =
           (Returned PutOutput, added [])"
    by (rule putItemDB_algo) simp
  from stored_urls_are_decoded[OF algoQuery_fields(2,3,4),
         of "''addCourse''" courses "exampleWorld [] []" PutOutput "added []"] put
  have a: "stored (added []) courses 1 (ascii ''CoverArt'') = JStr (ascii ''/img/a.png'')
           \<and> stored (added []) courses 1 (ascii ''CourseUrl'') = JStr (ascii ''http://x.test'')"
    by (elim conjE) (rule mp)
  from stored_urls_are_decoded[OF algoEdit_fields(2,3,4),
         of courses "exampleWorld [(1, algoItem)] []" "UpdateOutput editedItem" edited]
       updateItemDB_algoEdit
  have b: "stored edited courses 1 (ascii ''CoverArt'') = JStr (ascii ''/img/b.png'')
           \<and> stored edited courses 1 (ascii ''CourseUrl'') = JStr (ascii ''http://x.test/2'')"
    by (elim conjE) (rule mp)
  from a b show ?thesis by (intro conjI) (elim conjE, assumption)+
qed

lemma twiceEncoded_fields:
  "\<not> nullish twiceEncoded"
  "ToNumber exampleRuntime (property twiceEncoded (ascii ''id'')) = Inr (Fin 3)"
  "decodeURIComponent exampleRuntime (property twiceEncoded (ascii ''courseCoverArt''))
     = Inr (ascii ''%41'')"
  "decodeURIComponent exampleRuntime (property twiceEncoded (ascii ''courseUrl''))
     = Inr (ascii ''http://z.test'')"
proof -
  show "\<not> nullish twiceEncoded" by (simp add: nullish_def twiceEncoded_def)
  show "ToNumber exampleRuntime (property twiceEncoded (ascii ''id'')) = Inr (Fin 3)"
    by (simp add: twiceEncoded_def ascii_def exampleRuntime_def)
  show "decodeURIComponent exampleRuntime (property twiceEncoded (ascii ''courseCoverArt''))
     = Inr (ascii ''%41'')"
    by (simp add: twiceEncoded_def ascii_def decodeURIComponent_def Decode.simps
          ParseHexOctet_def hexDigit_def leadingOnes_def)
  show "decodeURIComponent exampleRuntime (property twiceEncoded (ascii ''courseUrl''))
     = Inr (ascii ''http://z.test'')"
    by (simp add: twiceEncoded_def ascii_def decodeURIComponent_def Decode.simps
          ParseHexOctet_def hexDigit_def leadingOnes_def)
qed

text \<open>
  C6, as stated, fails: decoding once does not keep percent-encoded values out of the
  store. The cover art \<^verbatim>\<open>%2541\<close> is stored as \<^verbatim>\<open>%41\<close>, which is the percent-encoding of
  \<^verbatim>\<open>A\<close>.
\<close>

theorem stored_urls_counterexample:
  "fst (putItemDB exampleRuntime twiceEncoded courses (exampleWorld [] [])) = Returned PutOutput
   \<and> stored (snd (putItemDB exampleRuntime twiceEncoded courses (exampleWorld [] [])))
         courses 3 (ascii ''CoverArt'') = JStr (ascii ''%41'')
   \<and> decodeURIComponent exampleRuntime (JStr (ascii ''%41'')) = Inr (ascii ''A'')"
proof -
  let ?w = "exampleWorld [] []"
  let ?i = "[(ascii ''ID'', JNum (Fin 3)),
             (ascii ''CourseName'', property twiceEncoded (ascii ''courseName'')),
             (ascii ''CoverArt'', JStr (ascii ''%41'')),
             (ascii ''CourseUrl'', JStr (ascii ''http://z.test'')),
             (ascii ''Author'', property twiceEncoded (ascii ''courseAuthor''))]"
  have tb: "tables ?w courses = Some []" by (simp add: exampleWorld_def)
  have ok: "faults ?w (length (sent ?w)) = None" by (simp add: exampleWorld_def)
  have put: "putItemDB exampleRuntime twiceEncoded courses ?w =
           (Returned PutOutput,
            ?w\<lparr>sent := sent ?w @ [PutCommand courses ?i],
               tables := (tables ?w)(courses := Some (AList.update 3 ?i []))\<rparr>)"
    by (rule putItemDB_succeeds[OF twiceEncoded_fields refl tb ok])
  have "stored (?w\<lparr>sent := sent ?w @ [PutCommand courses ?i],
               tables := (tables ?w)(courses := Some (AList.update 3 ?i []))\<rparr>)
          courses 3 (ascii ''CoverArt'') = JStr (ascii ''%41'')"
    unfolding stored_after_update using attribute_names by simp
  moreover have "decodeURIComponent exampleRuntime (JStr (ascii ''%41'')) = Inr (ascii ''A'')"
    by (simp add: ascii_def decodeURIComponent_def Decode.simps
          ParseHexOctet_def hexDigit_def leadingOnes_def)
  ultimately show ?thesis unfolding put by simp
qed

end
